theory Spec2Isabelle
  imports Main "HOL-Library.Char_ord" "HOL-Library.List_Lexorder"
begin

section \<open>The GitHub event summarizer of gh-weebhooks (backend/src/services/github.ts)\<close>

text \<open>
  The module turns a pair of an event-type string and a JSON-decoded payload into the
  HTML text of a Telegram message. This theory embeds its functions one by one, keeps
  their names, and then states and settles the properties claimed of them.

  Conventions of the embedding.
  \<^item> A payload is a value of the datatype \<open>json\<close>; \<open>undefined\<close>, which a property
    lookup yields for a missing key, is \<open>None\<close> of \<open>json option\<close>. An object is the
    list of its own properties in enumeration order.
  \<^item> A string is a list of characters. Case mapping and white space are the ASCII ones.
    The symbols outside ASCII that the engine writes itself (arrow, bullet, dash,
    ellipsis, multiplication sign) are the constants \<open>ARROW\<close>, \<open>BULLET\<close>,
    \<open>MDASH\<close>, \<open>ELLIPSIS\<close> and \<open>TIMES\<close>, spelled as their UTF-8 bytes.
  \<^item> JSON numbers are IEEE doubles. Their type \<open>'n\<close> and the primitives of the
    JavaScript runtime on them (rendering, truthiness, string-to-number conversion,
    multiplication) are parameters, collected in the record \<open>runtime\<close>. Lengths of
    arrays, which the engine prints as well, are natural numbers rendered in decimal by
    \<open>nat_str\<close>.
  \<^item> A function that can throw returns an \<open>option\<close>: \<open>None\<close> stands for a thrown
    TypeError. The only sources of a TypeError in this module are the conversion of an
    object to a primitive when the object has an own property \<open>toString\<close> (which
    shadows the inherited method with a value that cannot be called), and a method call
    on a value that has no such method.
\<close>

subsection \<open>Values and runtime primitives\<close>

datatype 'n json =
    JNull
  | JBool bool
  | JNum 'n
  | JStr string
  | JArr "'n json list"
  | JObj "(string \<times> 'n json) list"

type_synonym 'n payload = "(string \<times> 'n json) list"

record 'n runtime =
  num_str :: "'n \<Rightarrow> string"
  num_truthy :: "'n \<Rightarrow> bool"
  num_json :: "'n \<Rightarrow> string"
  str_num :: "string \<Rightarrow> 'n"
  nat_num :: "nat \<Rightarrow> 'n"
  num_times :: "'n \<Rightarrow> 'n \<Rightarrow> 'n"

definition DQ :: char where
  "DQ = CHR 0x22"

definition LF :: char where
  "LF = CHR 0x0A"

definition CR :: char where
  "CR = CHR 0x0D"

definition ARROW :: string where
  "ARROW = [CHR 0xE2, CHR 0x86, CHR 0x92]"

definition BULLET :: string where
  "BULLET = [CHR 0xE2, CHR 0x80, CHR 0xA2]"

definition MDASH :: string where
  "MDASH = [CHR 0xE2, CHR 0x80, CHR 0x94]"

definition ELLIPSIS :: string where
  "ELLIPSIS = [CHR 0xE2, CHR 0x80, CHR 0xA6]"

definition TIMES :: string where
  "TIMES = [CHR 0xC3, CHR 0x97]"

text \<open>\<open>Array.prototype.join\<close> on strings.\<close>

fun join :: "string \<Rightarrow> string list \<Rightarrow> string" where
  "join sep [] = []"
| "join sep [x] = x"
| "join sep (x # y # ys) = x @ sep @ join sep (y # ys)"

text \<open>Decimal rendering of a natural number, as \<open>String\<close> renders an array length.\<close>

definition digit_char :: "nat \<Rightarrow> char" where
  "digit_char d = char_of (48 + d)"

function nat_str :: "nat \<Rightarrow> string" where
  "nat_str n = (if n < 10 then [digit_char n] else nat_str (n div 10) @ [digit_char (n mod 10)])"
  by pat_completeness auto
termination
  by (relation "measure id") auto

declare nat_str.simps [simp del]

text \<open>
  \<open>String(v)\<close> and the conversion inside a template literal. An array is joined with
  commas, \<open>null\<close> elements rendering as the empty string. A plain object renders as
  \<open>[object Object]\<close> unless an own property \<open>toString\<close> shadows the method, in
  which case the conversion throws.
\<close>

fun to_str :: "'n runtime \<Rightarrow> 'n json \<Rightarrow> string option" where
  "to_str N JNull = Some ''null''"
| "to_str N (JBool b) = Some (if b then ''true'' else ''false'')"
| "to_str N (JNum n) = Some (num_str N n)"
| "to_str N (JStr s) = Some s"
| "to_str N (JArr xs) =
     map_option (join '','')
       (those (map (\<lambda>x. case x of JNull \<Rightarrow> Some [] | _ \<Rightarrow> to_str N x) xs))"
| "to_str N (JObj kvs) =
     (if map_of kvs ''toString'' = None then Some ''[object Object]'' else None)"

text \<open>Truthiness of a value, as \<open>if (v)\<close>, \<open>!v\<close>, \<open>Boolean(v)\<close> and \<open>||\<close> read it.\<close>

fun truthy :: "'n runtime \<Rightarrow> 'n json option \<Rightarrow> bool" where
  "truthy N None = False"
| "truthy N (Some JNull) = False"
| "truthy N (Some (JBool b)) = b"
| "truthy N (Some (JNum n)) = num_truthy N n"
| "truthy N (Some (JStr s)) = (s \<noteq> [])"
| "truthy N (Some (JArr xs)) = True"
| "truthy N (Some (JObj kvs)) = True"

text \<open>The operators \<open>a ?? b\<close> and \<open>a || b\<close>.\<close>

fun nullish :: "'n json option \<Rightarrow> 'n json option \<Rightarrow> 'n json option" where
  "nullish None b = b"
| "nullish (Some JNull) b = b"
| "nullish (Some v) b = Some v"

definition or_else :: "'n runtime \<Rightarrow> 'n json option \<Rightarrow> 'n json option \<Rightarrow> 'n json option" where
  "or_else N a b = (if truthy N a then a else b)"

text \<open>
  Property access \<open>data.key\<close> on a mapping. Every key the engine reads is a literal of
  the source, and none of them names a member of \<open>Object.prototype\<close>, so the lookup
  sees own properties only.
\<close>

definition get_prop :: "'n payload \<Rightarrow> string \<Rightarrow> 'n json option" where
  "get_prop data key = map_of data key"

subsection \<open>Escaping and text primitives\<close>

definition replace_all :: "char \<Rightarrow> string \<Rightarrow> string \<Rightarrow> string" where
  "replace_all c r s = concat (map (\<lambda>x. if x = c then r else [x]) s)"

definition esc_str :: "string \<Rightarrow> string" where
  "esc_str s =
     replace_all DQ ''&quot;''
       (replace_all (CHR ''>'') ''&gt;''
         (replace_all (CHR ''<'') ''&lt;''
           (replace_all (CHR ''&'') ''&amp;'' s)))"

definition esc :: "'n runtime \<Rightarrow> 'n json option \<Rightarrow> string option" where
  "esc N v = map_option esc_str (case nullish v (Some (JStr [])) of None \<Rightarrow> Some [] | Some w \<Rightarrow> to_str N w)"

text \<open>
  \<open>link(url, text)\<close>. Every call passes a literal label or none; a missing or empty
  label falls back to the URL. \<open>link_str\<close> is the function on a URL known to be a
  string; \<open>link\<close> takes any value and yields the empty string unless it is a
  non-empty string.
\<close>

definition link_str :: "string \<Rightarrow> string \<Rightarrow> string" where
  "link_str u label =
     (if u = [] then []
      else ''<a href='' @ [DQ] @ esc_str u @ [DQ] @ ''>''
           @ esc_str (if label \<noteq> [] then label else u) @ ''</a>'')"

definition link :: "'n json option \<Rightarrow> string \<Rightarrow> string" where
  "link url label = (case url of Some (JStr u) \<Rightarrow> link_str u label | _ \<Rightarrow> [])"

text \<open>The first segment of \<open>text.split(/\r?\n/, 1)\<close>.\<close>

fun first_segment :: "string \<Rightarrow> string" where
  "first_segment [] = []"
| "first_segment (c # cs) =
     (if c = LF then []
      else if c = CR \<and> (case cs of [] \<Rightarrow> False | d # ds \<Rightarrow> d = LF) then []
      else c # first_segment cs)"

definition firstLine :: "'n json option \<Rightarrow> nat \<Rightarrow> string" where
  "firstLine text limit =
     (case text of
        Some (JStr s) \<Rightarrow> if s = [] then [] else take limit (first_segment s)
      | _ \<Rightarrow> [])"

subsection \<open>Payload navigation\<close>

definition ensureMapping :: "'n json option \<Rightarrow> 'n payload" where
  "ensureMapping data = (case data of Some (JObj kvs) \<Rightarrow> kvs | _ \<Rightarrow> [])"

text \<open>
  \<open>dig\<close> walks a path of keys. A step from a value that is falsy or not an object
  yields \<open>undefined\<close>; so does a step from an array, whose only properties are its
  indices and the members of \<open>Array.prototype\<close>, none of which the engine asks for.
  A step that finds \<open>null\<close> or \<open>undefined\<close> returns it at once.
\<close>

fun dig :: "'n json option \<Rightarrow> string list \<Rightarrow> 'n json option" where
  "dig current [] = current"
| "dig current (key # path) =
     (case current of
        Some (JObj kvs) \<Rightarrow>
          (case map_of kvs key of
             None \<Rightarrow> None
           | Some JNull \<Rightarrow> Some JNull
           | Some v \<Rightarrow> dig (Some v) path)
      | _ \<Rightarrow> None)"

text \<open>The first path that digs up a non-empty string.\<close>

fun first_string :: "'n json option \<Rightarrow> string list list \<Rightarrow> string" where
  "first_string data [] = []"
| "first_string data (path # paths) =
     (case dig data path of
        Some (JStr s) \<Rightarrow> if s \<noteq> [] then s else first_string data paths
      | _ \<Rightarrow> first_string data paths)"

definition actor :: "'n payload \<Rightarrow> string" where
  "actor payload =
     first_string (Some (JObj payload))
       [[''sender'', ''login''], [''sender'', ''name''],
        [''user'', ''login''], [''user'', ''name''],
        [''actor'', ''login''], [''actor'', ''name''],
        [''pusher'', ''name''], [''pusher'', ''email''],
        [''installation'', ''account'', ''login''],
        [''installation'', ''account'', ''name'']]"

definition repo :: "'n payload \<Rightarrow> string" where
  "repo payload =
     first_string (Some (JObj payload))
       [[''repository'', ''full_name''], [''repository'', ''name'']]"

definition UNKNOWN :: string where
  "UNKNOWN = ''unknown''"

definition MAX_COMMITS :: nat where
  "MAX_COMMITS = 5"

subsection \<open>Labels\<close>

definition is_space :: "char \<Rightarrow> bool" where
  "is_space c = (c = CHR 0x09 \<or> c = CHR 0x0A \<or> c = CHR 0x0B \<or> c = CHR 0x0C \<or> c = CHR 0x0D \<or> c = CHR 0x20)"

definition trim :: "string \<Rightarrow> string" where
  "trim s = rev (dropWhile is_space (rev (dropWhile is_space s)))"

definition upper_char :: "char \<Rightarrow> char" where
  "upper_char c = (if CHR ''a'' \<le> c \<and> c \<le> CHR ''z'' then char_of (of_char c - (32::nat)) else c)"

definition lower_char :: "char \<Rightarrow> char" where
  "lower_char c = (if CHR ''A'' \<le> c \<and> c \<le> CHR ''Z'' then char_of (of_char c + (32::nat)) else c)"

definition toLowerCase :: "string \<Rightarrow> string" where
  "toLowerCase s = map lower_char s"

text \<open>\<open>s.split(/\s+/)\<close>: the pieces between maximal runs of white space.\<close>

function split_ws :: "string \<Rightarrow> string list" where
  "split_ws s =
     (case dropWhile (\<lambda>c. \<not> is_space c) s of
        [] \<Rightarrow> [s]
      | r # rest \<Rightarrow> takeWhile (\<lambda>c. \<not> is_space c) s # split_ws (dropWhile is_space rest))"
  by pat_completeness auto
termination
proof (relation "measure length")
  show "wf (measure length)" by simp
next
  fix s :: string and r rest
  assume a: "dropWhile (\<lambda>c. \<not> is_space c) s = r # rest"
  have "length (dropWhile is_space rest) \<le> length rest"
    by (rule length_dropWhile_le)
  moreover have "length (r # rest) \<le> length s"
    using length_dropWhile_le [of "\<lambda>c. \<not> is_space c" s] a by simp
  ultimately show "(dropWhile is_space rest, s) \<in> measure length" by simp
qed

declare split_ws.simps [simp del]

definition capitalize :: "string \<Rightarrow> string" where
  "capitalize word = (case word of [] \<Rightarrow> [] | c # cs \<Rightarrow> upper_char c # cs)"

definition prettyLabel :: "string \<Rightarrow> string" where
  "prettyLabel event =
     (let words = trim (replace_all (CHR ''_'') '' '' event)
      in if words = [] then ''Event''
         else join '' '' (map capitalize (split_ws words)))"

subsection \<open>The fallback formatter\<close>

definition fallbackSummary :: "string \<Rightarrow> 'n payload \<Rightarrow> string" where
  "fallbackSummary event payload =
     (let label = prettyLabel (if event \<noteq> [] then event else ''event'');
          repoName = repo payload;
          actorName = (if actor payload \<noteq> [] then actor payload else UNKNOWN);
          line = ''<b>'' @ esc_str label @ ''</b> event'';
          line = (if repoName \<noteq> [] then line @ '' for <code>'' @ esc_str repoName @ ''</code>'' else line);
          line = (if actorName \<noteq> [] then line @ '' by <b>'' @ esc_str actorName @ ''</b>'' else line)
      in line)"

subsection \<open>Subjects\<close>

definition SUBJECT_NAME_FIELDS :: "string list list" where
  "SUBJECT_NAME_FIELDS =
     [[''title''], [''name''], [''login''], [''slug''], [''ref''], [''branch''], [''tag''],
      [''tag_name''], [''environment''], [''key''], [''pattern''], [''sha''], [''node_id''],
      [''id''], [''number'']]"

definition SUBJECT_URL_FIELDS :: "string list list" where
  "SUBJECT_URL_FIELDS =
     [[''html_url''], [''url''], [''target_url''], [''links'', ''html''], [''links'', ''self'']]"

record subject =
  subject_name :: string
  subject_url :: string

text \<open>
  \<open>String(value)\<close> of a candidate value, for the values the name loop does not skip:
  \<open>None\<close> marks a value the loop passes over (\<open>undefined\<close>, \<open>null\<close>, an object or
  an array).
\<close>

fun scalar_text :: "'n runtime \<Rightarrow> 'n json option \<Rightarrow> string option" where
  "scalar_text N (Some (JBool b)) = Some (if b then ''true'' else ''false'')"
| "scalar_text N (Some (JNum n)) = Some (num_str N n)"
| "scalar_text N (Some (JStr s)) = Some s"
| "scalar_text N v = None"

definition truncate160 :: "string \<Rightarrow> string" where
  "truncate160 text = (if length text > 160 then take 157 text @ ''...'' else text)"

definition startsWith :: "string \<Rightarrow> string \<Rightarrow> bool" where
  "startsWith s p = (take (length p) s = p)"

definition hash_number :: "string list \<Rightarrow> string \<Rightarrow> string" where
  "hash_number candidate text =
     (if candidate \<noteq> [] \<and> last candidate = ''number'' \<and> text \<noteq> [] \<and> \<not> startsWith text ''#''
      then ''#'' @ text else text)"

text \<open>The loop of \<open>extractSubject\<close> over the name candidates.\<close>

fun name_loop :: "'n runtime \<Rightarrow> 'n json option \<Rightarrow> string list list \<Rightarrow> string" where
  "name_loop N data [] = []"
| "name_loop N data (candidate # rest) =
     (case scalar_text N (dig data candidate) of
        None \<Rightarrow> name_loop N data rest
      | Some s \<Rightarrow>
          if trim s = [] then name_loop N data rest
          else truncate160 (hash_number candidate (trim s)))"

definition extractSubject ::
    "'n runtime \<Rightarrow> 'n json option \<Rightarrow> string list list option \<Rightarrow> subject option" where
  "extractSubject N data fieldList =
     (case data of
        Some (JObj kvs) \<Rightarrow>
          Some \<lparr>subject_name =
                  name_loop N data (case fieldList of Some fs \<Rightarrow> fs | None \<Rightarrow> SUBJECT_NAME_FIELDS),
                subject_url = first_string data SUBJECT_URL_FIELDS\<rparr>
      | None \<Rightarrow> Some \<lparr>subject_name = [], subject_url = []\<rparr>
      | Some JNull \<Rightarrow> Some \<lparr>subject_name = [], subject_url = []\<rparr>
      | Some (JStr []) \<Rightarrow> Some \<lparr>subject_name = [], subject_url = []\<rparr>
      | Some v \<Rightarrow>
          map_option (\<lambda>text. \<lparr>subject_name = truncate160 text, subject_url = []\<rparr>) (to_str N v))"

text \<open>
  The subject specification of \<open>resolveSubject\<close>: absent, one field name, or a list
  whose items are field names or paths.
\<close>

datatype path_item = Field string | Path "string list"

datatype subject_spec = NoSubject | OneField string | Several "path_item list"

definition spec_paths :: "subject_spec \<Rightarrow> string list list" where
  "spec_paths spec =
     (case spec of
        NoSubject \<Rightarrow> []
      | OneField f \<Rightarrow> [[f]]
      | Several items \<Rightarrow> map (\<lambda>item. case item of Field f \<Rightarrow> [f] | Path p \<Rightarrow> p) items)"

fun first_truthy :: "'n runtime \<Rightarrow> 'n json option \<Rightarrow> string list list \<Rightarrow> 'n json option" where
  "first_truthy N payload [] = None"
| "first_truthy N payload (path # paths) =
     (if truthy N (dig payload path) then dig payload path else first_truthy N payload paths)"

text \<open>\<open>resolveSubject\<close> returns the subject or \<open>null\<close>, here \<open>None\<close>.\<close>

definition resolveSubject :: "'n runtime \<Rightarrow> 'n payload \<Rightarrow> subject_spec \<Rightarrow> 'n json option" where
  "resolveSubject N payload spec = first_truthy N (Some (JObj payload)) (spec_paths spec)"

subsection \<open>The generic action summary\<close>

text \<open>
  The \<open>extra\<close> option is a string, an array of strings, absent, or a function of the
  payload that returns one of the first three or throws. A thrown value is seen by the
  catch block through two operations only: its property \<open>message\<close> and its rendering by
  \<open>util.inspect\<close>; reading \<open>message\<close> off \<open>null\<close> or \<open>undefined\<close> throws in turn.
\<close>

datatype 'n thrown = ThrownNullish | Thrown "'n json option" string

datatype extra_value = NoValue | StringValue string | ArrayValue "string list"

datatype 'n extra = NoExtra | ExtraValue extra_value | ExtraResolver "'n payload \<Rightarrow> 'n thrown + extra_value"

definition extra_lines :: "extra_value \<Rightarrow> string list" where
  "extra_lines v =
     (case v of
        NoValue \<Rightarrow> []
      | StringValue s \<Rightarrow> if s \<noteq> [] then [s] else []
      | ArrayValue items \<Rightarrow> filter (\<lambda>item. item \<noteq> []) items)"

definition callableExtra :: "'n runtime \<Rightarrow> 'n extra \<Rightarrow> 'n payload \<Rightarrow> string list option" where
  "callableExtra N extra payload =
     (case extra of
        NoExtra \<Rightarrow> Some []
      | ExtraValue v \<Rightarrow> Some (extra_lines v)
      | ExtraResolver f \<Rightarrow>
          (case f payload of
             Inr result \<Rightarrow> Some (extra_lines result)
           | Inl ThrownNullish \<Rightarrow> None
           | Inl (Thrown message inspected) \<Rightarrow>
               map_option (\<lambda>m. [''<i>extra error: '' @ m @ ''</i>''])
                 (esc N (or_else N message (Some (JStr inspected))))))"

definition formatMainLine :: "string \<Rightarrow> string \<Rightarrow> string \<Rightarrow> string \<Rightarrow> string \<Rightarrow> string" where
  "formatMainLine label action subjectName repoName actorName =
     (let line = ''<b>'' @ esc_str label @ ''</b>'';
          line = (if subjectName \<noteq> [] then line @ '': '' @ esc_str subjectName else line);
          line = (if action \<noteq> [] then line @ '' <b>'' @ esc_str action @ ''</b>'' else line);
          line = (if repoName \<noteq> [] then line @ '' in <code>'' @ esc_str repoName @ ''</code>'' else line);
          line = (if actorName \<noteq> [] \<and> actorName \<noteq> UNKNOWN
                  then line @ '' by <b>'' @ esc_str actorName @ ''</b>'' else line)
      in line)"

record 'n options =
  subject :: subject_spec
  subjectFields :: "string list list option"
  urlFields :: "string list list option"
  extra :: "'n extra"

definition no_options :: "'n options" where
  "no_options = \<lparr>subject = NoSubject, subjectFields = None, urlFields = None, extra = NoExtra\<rparr>"

definition is_object :: "'n json option \<Rightarrow> bool" where
  "is_object v = (case v of Some (JObj kvs) \<Rightarrow> True | Some (JArr xs) \<Rightarrow> True | _ \<Rightarrow> False)"

text \<open>The subject's name and URL, as \<open>genericActionSummary\<close> works them out.\<close>

definition generic_subject :: "'n runtime \<Rightarrow> 'n payload \<Rightarrow> 'n options \<Rightarrow> subject option" where
  "generic_subject N payload options =
     (case resolveSubject N payload (subject options) of
        None \<Rightarrow> Some \<lparr>subject_name = [], subject_url = []\<rparr>
      | Some subjectData \<Rightarrow>
          map_option
            (\<lambda>s. if subject_url s = [] \<and> urlFields options \<noteq> None \<and> is_object (Some subjectData)
                 then s\<lparr>subject_url :=
                          first_string (Some subjectData)
                            (case urlFields options of Some fs \<Rightarrow> fs | None \<Rightarrow> [])\<rparr>
                 else s)
            (extractSubject N (Some subjectData) (subjectFields options)))"

text \<open>The lines of the generic summary, before they are joined.\<close>

definition genericActionSummary_lines ::
    "'n runtime \<Rightarrow> string \<Rightarrow> 'n payload \<Rightarrow> 'n options \<Rightarrow> string list option" where
  "genericActionSummary_lines N label payloadInput options =
     (let payload = ensureMapping (Some (JObj payloadInput));
          actorName = (if actor payload \<noteq> [] then actor payload else UNKNOWN);
          repoName = repo payload
      in case to_str N (case nullish (get_prop payload ''action'') (Some (JStr [])) of
                          None \<Rightarrow> JStr [] | Some a \<Rightarrow> a) of
           None \<Rightarrow> None
         | Some a \<Rightarrow>
             (case generic_subject N payload options of
                None \<Rightarrow> None
              | Some s \<Rightarrow>
                  (case callableExtra N (extra options) payload of
                     None \<Rightarrow> None
                   | Some extras \<Rightarrow>
                       Some ([formatMainLine label (trim a) (subject_name s) repoName actorName]
                             @ (if subject_url s \<noteq> []
                                then [link_str (subject_url s) ''View details'']
                                else [])
                             @ filter (\<lambda>line. line \<noteq> []) extras))))"

definition genericActionSummary ::
    "'n runtime \<Rightarrow> string \<Rightarrow> 'n payload \<Rightarrow> 'n options \<Rightarrow> string option" where
  "genericActionSummary N label payloadInput options =
     map_option (join [LF]) (genericActionSummary_lines N label payloadInput options)"

subsection \<open>Building lines\<close>

text \<open>
  A template literal is the concatenation of its parts, and throws when one of its
  interpolations throws. The summary is its lines joined by a line feed.
\<close>

definition tmpl :: "string option list \<Rightarrow> string option" where
  "tmpl parts = map_option concat (those parts)"

definition join_lines :: "string option list \<Rightarrow> string option" where
  "join_lines ls = map_option (join [LF]) (those ls)"

fun is_str :: "'n json option \<Rightarrow> string \<Rightarrow> bool" where
  "is_str (Some (JStr s)) t = (s = t)"
| "is_str v t = False"

definition str_or_empty :: "'n json option \<Rightarrow> string" where
  "str_or_empty v = (case v of Some (JStr s) \<Rightarrow> s | _ \<Rightarrow> [])"

definition array_or_empty :: "'n json option \<Rightarrow> 'n json list" where
  "array_or_empty v = (case v of Some (JArr xs) \<Rightarrow> xs | _ \<Rightarrow> [])"

definition or_str :: "string \<Rightarrow> string \<Rightarrow> string" where
  "or_str a b = (if a \<noteq> [] then a else b)"

subsection \<open>The push summarizer\<close>

text \<open>\<open>s.split(c)\<close> for a one-character separator.\<close>

fun split_on :: "char \<Rightarrow> string \<Rightarrow> string list" where
  "split_on c [] = [[]]"
| "split_on c (x # xs) =
     (if x = c then [] # split_on c xs
      else (case split_on c xs of [] \<Rightarrow> [[x]] | p # ps \<Rightarrow> (x # p) # ps))"

definition push_branch :: "'n json option \<Rightarrow> string" where
  "push_branch ref =
     (case ref of
        Some (JStr r) \<Rightarrow>
          if r \<noteq> [] then (case split_on (CHR ''/'') r of [] \<Rightarrow> UNKNOWN | ps \<Rightarrow> last ps)
          else UNKNOWN
      | _ \<Rightarrow> UNKNOWN)"

text \<open>The lines one pass of the commit loop pushes for the commit itself.\<close>

definition commit_entry :: "'n json option \<Rightarrow> string list" where
  "commit_entry c =
     (let commit = ensureMapping c;
          sha = (case get_prop commit ''id'' of Some (JStr i) \<Rightarrow> take 7 i | _ \<Rightarrow> []);
          message = firstLine (get_prop commit ''message'') 120;
          url = str_or_empty (get_prop commit ''url'')
      in [''<code>'' @ esc_str sha @ ''</code> '' @ esc_str message]
         @ (if url \<noteq> [] then [link_str url ''View commit''] else []))"

text \<open>The \<open>for\<close> loop over the commits shown, by index.\<close>

function commit_loop :: "'n json list \<Rightarrow> nat \<Rightarrow> nat \<Rightarrow> string list" where
  "commit_loop commits shown index =
     (if index < shown
      then commit_entry (if index < length commits then Some (commits ! index) else None)
           @ (if index < shown - 1 then [[]] else [])
           @ commit_loop commits shown (Suc index)
      else [])"
  by pat_completeness auto
termination
  by (relation "measure (\<lambda>(commits, shown, index). shown - index)") auto

declare commit_loop.simps [simp del]

text \<open>The two headlines of the push summary, for a deleted ref and for a push.\<close>

definition deleted_head :: "string \<Rightarrow> string \<Rightarrow> string \<Rightarrow> string \<Rightarrow> string" where
  "deleted_head targetLabel branch repoName actorText =
     ''<b>Deleted</b> '' @ targetLabel @ '' <code>'' @ esc_str branch @ ''</code>''
     @ '' from <code>'' @ esc_str repoName @ ''</code> by <b>'' @ actorText @ ''</b>''"

definition push_head :: "string \<Rightarrow> string \<Rightarrow> string \<Rightarrow> string \<Rightarrow> nat \<Rightarrow> bool \<Rightarrow> string" where
  "push_head targetLabel branch repoName actorText commitCount forced =
     ''<b>Push</b> to '' @ targetLabel @ '' <code>'' @ esc_str branch @ ''</code>''
     @ '' in <code>'' @ esc_str repoName @ ''</code> by <b>'' @ actorText @ ''</b>''
     @ '' ('' @ nat_str commitCount @ '' '' @ (if commitCount = 1 then ''commit'' else ''commits'') @ '')''
     @ (if forced then '' <i>(forced)</i>'' else [])"

definition summarizePush_lines :: "'n runtime \<Rightarrow> 'n payload \<Rightarrow> string list option" where
  "summarizePush_lines N payload =
     (let data = ensureMapping (Some (JObj payload));
          repoName = or_str (repo data) ''?'';
          repoUrl = dig (Some (JObj data)) [''repository'', ''html_url''];
          ref = nullish (get_prop data ''ref'') (Some (JStr []));
          isTag = (case ref of Some (JStr r) \<Rightarrow> startsWith r ''refs/tags/'' | _ \<Rightarrow> False);
          branch = push_branch ref;
          deleted = truthy N (get_prop data ''deleted'');
          forced = truthy N (get_prop data ''forced'');
          actorName = or_else N (nullish (dig (Some (JObj data)) [''pusher'', ''name''])
                                   (Some (JStr (actor data))))
                        (Some (JStr UNKNOWN));
          commits = array_or_empty (get_prop data ''commits'');
          compareUrl = str_or_empty (get_prop data ''compare'');
          targetLabel = (if isTag then ''tag'' else ''branch'')
      in case esc N actorName of
           None \<Rightarrow> None
         | Some actorText \<Rightarrow>
             Some ((if deleted
                    then [deleted_head targetLabel branch repoName actorText]
                    else [push_head targetLabel branch repoName actorText (length commits) forced]
                         @ (if compareUrl \<noteq> [] then [link_str compareUrl ''Compare''] else [])
                         @ (if length commits > 0
                            then [[]]
                                 @ commit_loop commits (min (length commits) MAX_COMMITS) 0
                                 @ (if length commits > MAX_COMMITS
                                    then [''<i>+'' @ nat_str (length commits - MAX_COMMITS)
                                          @ '' more commits</i>'']
                                    else [])
                            else []))
                   @ (if deleted \<and> truthy N repoUrl then [link repoUrl ''Repository''] else [])))"

definition summarizePush :: "'n runtime \<Rightarrow> 'n payload \<Rightarrow> string option" where
  "summarizePush N payload = map_option (join [LF]) (summarizePush_lines N payload)"

subsection \<open>The pull request summarizer\<close>

definition summarizePullRequest_lines :: "'n runtime \<Rightarrow> 'n payload \<Rightarrow> string list option" where
  "summarizePullRequest_lines N payload =
     (let data = ensureMapping (Some (JObj payload));
          action0 = nullish (get_prop data ''action'') (Some (JStr []));
          repoName = or_str (repo data) ''?'';
          pr = ensureMapping (get_prop data ''pull_request'');
          number = nullish (get_prop pr ''number'')
                     (nullish (get_prop data ''number'') (Some (JStr ''?'')));
          title = nullish (get_prop pr ''title'') (Some (JStr []));
          actorName = or_str (actor data) UNKNOWN;
          headRef = nullish (dig (Some (JObj pr)) [''head'', ''ref'']) (Some (JStr ''?''));
          baseRef = nullish (dig (Some (JObj pr)) [''base'', ''ref'']) (Some (JStr ''?''));
          merged = truthy N (get_prop pr ''merged'');
          url = get_prop pr ''html_url'';
          action = (if is_str action0 ''closed'' \<and> merged then Some (JStr ''merged'') else action0)
      in those
           ([tmpl [Some ''<b>Pull request</b> <code>'', Some (esc_str repoName), Some ''</code> #'',
                   esc N number, Some '' <b>'', esc N action, Some ''</b> by <b>'',
                   Some (esc_str actorName), Some ''</b>'']]
            @ (if truthy N title then [tmpl [Some ''<b>'', esc N title, Some ''</b>'']] else [])
            @ [tmpl [esc N headRef, Some ('' '' @ ARROW @ '' ''), esc N baseRef]]
            @ (if truthy N url then [Some (link url ''View pull request'')] else [])))"

definition summarizePullRequest :: "'n runtime \<Rightarrow> 'n payload \<Rightarrow> string option" where
  "summarizePullRequest N payload = map_option (join [LF]) (summarizePullRequest_lines N payload)"

subsection \<open>More runtime operations\<close>

text \<open>\<open>String(v)\<close> of a value that may be \<open>undefined\<close>.\<close>

definition js_string :: "'n runtime \<Rightarrow> 'n json option \<Rightarrow> string option" where
  "js_string N v = (case v of None \<Rightarrow> Some ''undefined'' | Some w \<Rightarrow> to_str N w)"

text \<open>
  Optional chaining \<open>v?.key\<close>. On \<open>null\<close> and \<open>undefined\<close> it yields
  \<open>undefined\<close>; on a string, number, boolean or array it looks the key up on the
  prototype, which has none of the keys the engine asks for.
\<close>

fun is_nullish :: "'n json option \<Rightarrow> bool" where
  "is_nullish None = True"
| "is_nullish (Some JNull) = True"
| "is_nullish (Some v) = False"

definition opt_prop :: "'n json option \<Rightarrow> string \<Rightarrow> 'n json option" where
  "opt_prop v key = (case v of Some (JObj kvs) \<Rightarrow> map_of kvs key | _ \<Rightarrow> None)"

text \<open>
  The numeric conversion that \<open>*\<close> applies to an operand. An array or object is first
  converted to a primitive, which is its string (the inherited \<open>valueOf\<close> returns the
  object itself and is passed over).
\<close>

definition to_number :: "'n runtime \<Rightarrow> 'n json \<Rightarrow> 'n option" where
  "to_number N v =
     (case v of
        JNull \<Rightarrow> Some (nat_num N 0)
      | JBool b \<Rightarrow> Some (nat_num N (if b then 1 else 0))
      | JNum n \<Rightarrow> Some n
      | JStr s \<Rightarrow> Some (str_num N s)
      | _ \<Rightarrow> map_option (str_num N) (to_str N v))"

text \<open>\<open>JSON.stringify\<close> on a decoded value, with the quoting of strings.\<close>

definition hex_digit :: "nat \<Rightarrow> char" where
  "hex_digit d = (if d < 10 then char_of (48 + d) else char_of (87 + d))"

definition quote_char :: "char \<Rightarrow> string" where
  "quote_char c =
     (if c = DQ then [CHR 0x5C, DQ]
      else if c = CHR 0x5C then [CHR 0x5C, CHR 0x5C]
      else if c = CHR 0x08 then [CHR 0x5C, CHR ''b'']
      else if c = CHR 0x0C then [CHR 0x5C, CHR ''f'']
      else if c = CHR 0x0A then [CHR 0x5C, CHR ''n'']
      else if c = CHR 0x0D then [CHR 0x5C, CHR ''r'']
      else if c = CHR 0x09 then [CHR 0x5C, CHR ''t'']
      else if (of_char c :: nat) < 32
        then [CHR 0x5C, CHR ''u'', CHR ''0'', CHR ''0'',
              hex_digit (of_char c div 16), hex_digit (of_char c mod 16)]
      else [c])"

definition quote_json :: "string \<Rightarrow> string" where
  "quote_json s = [DQ] @ concat (map quote_char s) @ [DQ]"

fun json_stringify :: "'n runtime \<Rightarrow> 'n json \<Rightarrow> string" where
  "json_stringify N JNull = ''null''"
| "json_stringify N (JBool b) = (if b then ''true'' else ''false'')"
| "json_stringify N (JNum n) = num_json N n"
| "json_stringify N (JStr s) = quote_json s"
| "json_stringify N (JArr xs) = ''['' @ join '','' (map (json_stringify N) xs) @ '']''"
| "json_stringify N (JObj kvs) =
     ''{'' @ join '','' (map (\<lambda>kv. quote_json (fst kv) @ '':'' @ json_stringify N (snd kv)) kvs) @ ''}''"

subsection \<open>The summarizers, one per event type\<close>

definition summarizePing :: "'n runtime \<Rightarrow> 'n payload \<Rightarrow> string option" where
  "summarizePing N payload =
     (let data = ensureMapping (Some (JObj payload));
          repoName = or_str (repo data) ''?'';
          zen = nullish (get_prop data ''zen'') (Some (JStr []));
          hook = ensureMapping (get_prop data ''hook'');
          hookId = nullish (get_prop data ''hook_id'') (nullish (get_prop hook ''id'') (Some (JStr ''?'')));
          cfg = ensureMapping (get_prop hook ''config'');
          events = array_or_empty (get_prop hook ''events'');
          lastResponse = nullish (get_prop (ensureMapping (get_prop hook ''last_response'')) ''status'')
                           (Some (JStr ''unknown''));
          createdAt = nullish (get_prop hook ''created_at'') (Some (JStr []));
          updatedAt = nullish (get_prop hook ''updated_at'') (Some (JStr []));
          payloadUrl = get_prop cfg ''url'';
          testUrl = get_prop hook ''test_url'';
          pingUrl = get_prop hook ''ping_url''
      in join_lines
           ([Some ''<b>GitHub webhook ping received</b>'',
             Some (''repository: <code>'' @ esc_str repoName @ ''</code>''),
             tmpl [Some ''hook_id: <code>'', esc N hookId, Some ''</code>'']]
            @ (if length events > 0
               then [tmpl [Some ''events: '',
                           map_option (join '', '')
                             (those (map (\<lambda>evt. tmpl [Some ''<code>'', esc N (Some evt), Some ''</code>'']) events))]]
               else [Some ''events: <code>*</code>''])
            @ [Some (''payload_url: '' @ (if truthy N payloadUrl then link payloadUrl [] else ''<code>-</code>''))]
            @ [tmpl [Some ''last_response: <code>'', esc N lastResponse, Some ''</code>'']]
            @ (if truthy N createdAt then [tmpl [Some ''created_at: <code>'', esc N createdAt, Some ''</code>'']] else [])
            @ (if truthy N updatedAt then [tmpl [Some ''updated_at: <code>'', esc N updatedAt, Some ''</code>'']] else [])
            @ (if truthy N testUrl then [Some (''test_url: '' @ link testUrl [])] else [])
            @ (if truthy N pingUrl then [Some (''ping_url: '' @ link pingUrl [])] else [])
            @ (if truthy N zen then [tmpl [Some ''zen: '', esc N zen]] else [])))"

definition summarizeCreate :: "'n runtime \<Rightarrow> 'n payload \<Rightarrow> string option" where
  "summarizeCreate N payload =
     (let data = ensureMapping (Some (JObj payload));
          repoName = repo data;
          refType = nullish (get_prop data ''ref_type'') (Some (JStr ''ref''));
          ref = nullish (get_prop data ''ref'') (Some (JStr ''?''));
          actorName = or_str (actor data) UNKNOWN;
          repoPart = (if repoName \<noteq> [] then '' in <code>'' @ esc_str repoName @ ''</code>'' else [])
      in tmpl [Some ''<b>Create</b> '', esc N refType, Some '' <code>'', esc N ref, Some ''</code>'',
               Some repoPart, Some '' by <b>'', Some (esc_str actorName), Some ''</b>''])"

definition summarizeDelete :: "'n runtime \<Rightarrow> 'n payload \<Rightarrow> string option" where
  "summarizeDelete N payload =
     (let data = ensureMapping (Some (JObj payload));
          repoName = repo data;
          refType = nullish (get_prop data ''ref_type'') (Some (JStr ''ref''));
          ref = nullish (get_prop data ''ref'') (Some (JStr ''?''));
          actorName = or_str (actor data) UNKNOWN;
          repoPart = (if repoName \<noteq> [] then '' from <code>'' @ esc_str repoName @ ''</code>'' else [])
      in tmpl [Some ''<b>Delete</b> '', esc N refType, Some '' <code>'', esc N ref, Some ''</code>'',
               Some repoPart, Some '' by <b>'', Some (esc_str actorName), Some ''</b>''])"

definition summarizeIssues :: "'n runtime \<Rightarrow> 'n payload \<Rightarrow> string option" where
  "summarizeIssues N payload =
     (let data = ensureMapping (Some (JObj payload));
          action = nullish (get_prop data ''action'') (Some (JStr []));
          repoName = or_str (repo data) ''?'';
          issue = ensureMapping (get_prop data ''issue'');
          number = nullish (get_prop issue ''number'') (nullish (get_prop data ''number'') (Some (JStr ''?'')));
          title = nullish (get_prop issue ''title'') (Some (JStr []));
          actorName = or_str (actor data) UNKNOWN;
          url = get_prop issue ''html_url''
      in join_lines
           ([tmpl [Some ''<b>Issue</b> <code>'', Some (esc_str repoName), Some ''</code> #'', esc N number,
                   Some '' <b>'', esc N action, Some ''</b> by <b>'', Some (esc_str actorName), Some ''</b>'']]
            @ (if truthy N title then [tmpl [Some ''<b>'', esc N title, Some ''</b>'']] else [])
            @ (if truthy N url then [Some (link url ''View issue'')] else [])))"

definition summarizeIssueComment :: "'n runtime \<Rightarrow> 'n payload \<Rightarrow> string option" where
  "summarizeIssueComment N payload =
     (let data = ensureMapping (Some (JObj payload));
          action = nullish (get_prop data ''action'') (Some (JStr []));
          issue = ensureMapping (get_prop data ''issue'');
          comment = ensureMapping (get_prop data ''comment'');
          actorName = or_str (actor data) UNKNOWN;
          repoName = or_str (repo data) ''?'';
          number = nullish (get_prop issue ''number'') (Some (JStr ''?''));
          excerpt = firstLine (get_prop comment ''body'') 200;
          url = nullish (get_prop comment ''html_url'') (get_prop issue ''html_url'')
      in join_lines
           ([tmpl [Some ''<b>Issue comment</b> on <code>'', Some (esc_str repoName), Some ''</code> #'',
                   esc N number, Some '' <b>'', esc N action, Some ''</b> by <b>'',
                   Some (esc_str actorName), Some ''</b>'']]
            @ (if excerpt \<noteq> [] then [Some (esc_str excerpt)] else [])
            @ (if truthy N url then [Some (link url ''View comment'')] else [])))"

text \<open>
  The test \<open>state && state.toLowerCase() !== String(action).toLowerCase()\<close>: a truthy
  state that is not a string has no method \<open>toLowerCase\<close>, and the call throws.
\<close>

definition state_differs :: "'n runtime \<Rightarrow> 'n json option \<Rightarrow> 'n json option \<Rightarrow> bool option" where
  "state_differs N state action =
     (if truthy N state
      then (case state of
              Some (JStr s) \<Rightarrow> map_option (\<lambda>a. toLowerCase s \<noteq> toLowerCase a) (js_string N action)
            | _ \<Rightarrow> None)
      else Some False)"

definition summarizePullRequestReview :: "'n runtime \<Rightarrow> 'n payload \<Rightarrow> string option" where
  "summarizePullRequestReview N payload =
     (let data = ensureMapping (Some (JObj payload));
          action = nullish (get_prop data ''action'') (Some (JStr []));
          review = ensureMapping (get_prop data ''review'');
          pr = ensureMapping (get_prop data ''pull_request'');
          actorName = or_str (actor data) UNKNOWN;
          repoName = or_str (repo data) ''?'';
          number = nullish (get_prop pr ''number'') (nullish (get_prop data ''number'') (Some (JStr ''?'')));
          state = nullish (get_prop review ''state'') (Some (JStr []));
          body = firstLine (get_prop review ''body'') 200;
          url = nullish (get_prop review ''html_url'') (get_prop pr ''html_url'')
      in case state_differs N state action of
           None \<Rightarrow> None
         | Some differs \<Rightarrow>
             join_lines
               ([tmpl [Some ''<b>Pull request review</b> on <code>'', Some (esc_str repoName), Some ''</code> #'',
                       esc N number, Some '' <b>'', esc N (or_else N action state), Some ''</b> by <b>'',
                       Some (esc_str actorName), Some ''</b>'']]
                @ (if differs then [tmpl [Some ''state: <code>'', esc N state, Some ''</code>'']] else [])
                @ (if body \<noteq> [] then [Some (esc_str body)] else [])
                @ (if truthy N url then [Some (link url ''View review'')] else [])))"

definition summarizePullRequestReviewComment :: "'n runtime \<Rightarrow> 'n payload \<Rightarrow> string option" where
  "summarizePullRequestReviewComment N payload =
     (let data = ensureMapping (Some (JObj payload));
          action = nullish (get_prop data ''action'') (Some (JStr []));
          comment = ensureMapping (get_prop data ''comment'');
          pr = ensureMapping (get_prop data ''pull_request'');
          repoName = or_str (repo data) ''?'';
          actorName = or_str (actor data) UNKNOWN;
          number = nullish (get_prop pr ''number'') (nullish (get_prop data ''number'') (Some (JStr ''?'')));
          path = nullish (get_prop comment ''path'') (Some (JStr []));
          position = get_prop comment ''position'';
          body = firstLine (get_prop comment ''body'') 200;
          url = nullish (get_prop comment ''html_url'') (get_prop pr ''html_url'')
      in join_lines
           ([tmpl [Some ''<b>PR review comment</b> on <code>'', Some (esc_str repoName), Some ''</code> #'',
                   esc N number, Some '' <b>'', esc N action, Some ''</b> by <b>'',
                   Some (esc_str actorName), Some ''</b>'']]
            @ (if truthy N path
               then [tmpl [Some ''file: <code>'', esc N path, Some ''</code>'',
                           (if \<not> is_nullish position
                            then tmpl [Some '' (line '', js_string N position, Some '')'']
                            else Some [])]]
               else [])
            @ (if body \<noteq> [] then [Some (esc_str body)] else [])
            @ (if truthy N url then [Some (link url ''View comment'')] else [])))"

definition summarizePullRequestReviewThread :: "'n runtime \<Rightarrow> 'n payload \<Rightarrow> string option" where
  "summarizePullRequestReviewThread N payload =
     (let data = ensureMapping (Some (JObj payload));
          action = nullish (get_prop data ''action'') (Some (JStr []));
          thread = ensureMapping (get_prop data ''thread'');
          pr = ensureMapping (get_prop data ''pull_request'');
          repoName = or_str (repo data) ''?'';
          number = nullish (get_prop pr ''number'') (nullish (get_prop data ''number'') (Some (JStr ''?'')));
          actorName = or_str (actor data) UNKNOWN;
          url = nullish (get_prop thread ''html_url'') (get_prop pr ''html_url'');
          path = nullish (get_prop thread ''path'') (Some (JStr []))
      in join_lines
           ([tmpl [Some ''<b>PR review thread</b> on <code>'', Some (esc_str repoName), Some ''</code> #'',
                   esc N number, Some '' <b>'', esc N action, Some ''</b> by <b>'',
                   Some (esc_str actorName), Some ''</b>'']]
            @ (if truthy N path then [tmpl [Some ''file: <code>'', esc N path, Some ''</code>'']] else [])
            @ (if truthy N url then [Some (link url ''View thread'')] else [])))"

definition summarizeRelease :: "'n runtime \<Rightarrow> 'n payload \<Rightarrow> string option" where
  "summarizeRelease N payload =
     (let data = ensureMapping (Some (JObj payload));
          action = nullish (get_prop data ''action'') (Some (JStr []));
          release = ensureMapping (get_prop data ''release'');
          repoName = or_str (repo data) ''?'';
          name = nullish (get_prop release ''name'') (nullish (get_prop release ''tag_name'') (Some (JStr ''release'')));
          url = get_prop release ''html_url'';
          body = firstLine (get_prop release ''body'') 200;
          draft = (if truthy N (get_prop release ''draft'') then '' (draft)'' else []);
          prerelease = (if truthy N (get_prop release ''prerelease'') then '' (pre-release)'' else []);
          actorName = or_str (actor data) UNKNOWN
      in join_lines
           ([tmpl [Some ''<b>Release</b> <code>'', Some (esc_str repoName), Some ''</code> <b>'', esc N action,
                   Some ''</b> by <b>'', Some (esc_str actorName), Some ''</b>''],
             tmpl [Some ''<b>'', esc N name, Some ''</b>'', Some draft, Some prerelease]]
            @ (if body \<noteq> [] then [Some (esc_str body)] else [])
            @ (if truthy N url then [Some (link url ''View release'')] else [])))"

definition summarizeStatus :: "'n runtime \<Rightarrow> 'n payload \<Rightarrow> string option" where
  "summarizeStatus N payload =
     (let data = ensureMapping (Some (JObj payload));
          state = nullish (get_prop data ''state'') (Some (JStr []));
          repoName = or_str (repo data) ''?'';
          sha = (case get_prop data ''sha'' of Some (JStr h) \<Rightarrow> take 7 h | _ \<Rightarrow> []);
          context = nullish (get_prop data ''context'') (Some (JStr []));
          description = nullish (get_prop data ''description'') (Some (JStr []));
          targetUrl = nullish (get_prop data ''target_url'') (Some (JStr []))
      in join_lines
           ([tmpl [Some ''<b>Status</b> <code>'', Some (esc_str repoName), Some ''</code> <code>'', esc N context,
                   Some (''</code> '' @ ARROW @ '' <b>''), esc N state, Some ''</b> for <code>'',
                   Some (esc_str sha), Some ''</code>'']]
            @ (if truthy N description then [esc N description] else [])
            @ (if truthy N targetUrl then [Some (link targetUrl ''View status'')] else [])))"

definition summarizeDeployment :: "'n runtime \<Rightarrow> 'n payload \<Rightarrow> string option" where
  "summarizeDeployment N payload =
     (let data = ensureMapping (Some (JObj payload));
          deployment = ensureMapping (get_prop data ''deployment'');
          repoName = or_str (repo data) ''?'';
          actorName = or_str (actor data) UNKNOWN;
          environment = nullish (get_prop deployment ''environment'') (Some (JStr ''?''));
          ref = nullish (get_prop deployment ''ref'') (Some (JStr []));
          description = nullish (get_prop deployment ''description'') (Some (JStr []));
          url = nullish (get_prop deployment ''statuses_url'') (get_prop deployment ''url'')
      in join_lines
           ([tmpl [Some ''<b>Deployment</b> <code>'', Some (esc_str repoName), Some (''</code> '' @ ARROW @ '' <b>''),
                   esc N environment, Some ''</b> by <b>'', Some (esc_str actorName), Some ''</b>'']]
            @ (if truthy N ref then [tmpl [Some ''ref: <code>'', esc N ref, Some ''</code>'']] else [])
            @ (if truthy N description then [esc N description] else [])
            @ (if truthy N url then [Some (link url ''Deployment API'')] else [])))"

definition summarizeDeploymentStatus :: "'n runtime \<Rightarrow> 'n payload \<Rightarrow> string option" where
  "summarizeDeploymentStatus N payload =
     (let data = ensureMapping (Some (JObj payload));
          deployment = ensureMapping (get_prop data ''deployment'');
          status = ensureMapping (get_prop data ''deployment_status'');
          repoName = or_str (repo data) ''?'';
          actorName = or_str (actor data) UNKNOWN;
          environment = nullish (get_prop deployment ''environment'')
                          (nullish (get_prop status ''environment'') (Some (JStr ''?'')));
          state = nullish (get_prop status ''state'') (Some (JStr []));
          description = nullish (get_prop status ''description'') (Some (JStr []));
          targetUrl = nullish (get_prop status ''target_url'') (Some (JStr []))
      in join_lines
           ([tmpl [Some ''<b>Deployment status</b> <code>'', Some (esc_str repoName),
                   Some (''</code> '' @ ARROW @ '' <b>''), esc N environment, Some ''</b> is <b>'', esc N state,
                   Some ''</b> by <b>'', Some (esc_str actorName), Some ''</b>'']]
            @ (if truthy N description then [esc N description] else [])
            @ (if truthy N targetUrl then [Some (link targetUrl ''Target'')] else [])))"

definition summarizeDeploymentReview :: "'n runtime \<Rightarrow> 'n payload \<Rightarrow> string option" where
  "summarizeDeploymentReview N payload =
     (let data = ensureMapping (Some (JObj payload));
          deployment = ensureMapping (get_prop data ''deployment'');
          review = ensureMapping (get_prop data ''review'');
          environment = nullish (get_prop deployment ''environment'')
                          (nullish (get_prop review ''environment'') (Some (JStr ''?'')));
          state = nullish (get_prop review ''state'') (Some (JStr []));
          actorName = or_str (actor data) UNKNOWN;
          repoName = or_str (repo data) ''?'';
          url = get_prop review ''html_url''
      in join_lines
           ([tmpl [Some ''<b>Deployment review</b> <code>'', Some (esc_str repoName),
                   Some (''</code> '' @ ARROW @ '' <b>''), esc N environment, Some ''</b> <b>'', esc N state,
                   Some ''</b> by <b>'', Some (esc_str actorName), Some ''</b>'']]
            @ (if truthy N url then [Some (link url ''View review'')] else [])))"

definition summarizeDeploymentProtectionRule :: "'n runtime \<Rightarrow> 'n payload \<Rightarrow> string option" where
  "summarizeDeploymentProtectionRule N payload =
     (let data = ensureMapping (Some (JObj payload));
          environment = nullish (get_prop data ''environment'')
                          (nullish (dig (Some (JObj data)) [''deployment_protection_rule'', ''environment''])
                             (Some (JStr ''?'')));
          actorName = or_str (actor data) UNKNOWN;
          action = nullish (get_prop data ''action'') (Some (JStr []));
          repoName = or_str (repo data) ''?''
      in tmpl [Some ''<b>Deployment protection rule</b> <code>'', Some (esc_str repoName),
               Some (''</code> '' @ ARROW @ '' <b>''), esc N environment, Some ''</b> <b>'', esc N action,
               Some ''</b> by <b>'', Some (esc_str actorName), Some ''</b>''])"

definition summarizeDiscussion :: "'n runtime \<Rightarrow> 'n payload \<Rightarrow> string option" where
  "summarizeDiscussion N payload =
     (let data = ensureMapping (Some (JObj payload));
          discussion = ensureMapping (get_prop data ''discussion'');
          action = nullish (get_prop data ''action'') (Some (JStr []));
          title = nullish (get_prop discussion ''title'') (Some (JStr []));
          url = get_prop discussion ''html_url'';
          repoName = repo data;
          actorName = or_str (actor data) UNKNOWN;
          category = nullish (dig (Some (JObj discussion)) [''category'', ''name'']) (Some (JStr []));
          head = tmpl [Some ''<b>Discussion</b> <b>'', esc N action, Some ''</b> by <b>'',
                       Some (esc_str actorName), Some ''</b>'',
                       Some (if repoName \<noteq> [] then '' in <code>'' @ esc_str repoName @ ''</code>'' else [])]
      in join_lines
           ([head]
            @ (if truthy N title then [tmpl [Some ''<b>'', esc N title, Some ''</b>'']] else [])
            @ (if truthy N category then [tmpl [Some ''category: <code>'', esc N category, Some ''</code>'']] else [])
            @ (if truthy N url then [Some (link url ''View discussion'')] else [])))"

definition summarizeDiscussionComment :: "'n runtime \<Rightarrow> 'n payload \<Rightarrow> string option" where
  "summarizeDiscussionComment N payload =
     (let data = ensureMapping (Some (JObj payload));
          discussion = ensureMapping (get_prop data ''discussion'');
          comment = ensureMapping (get_prop data ''comment'');
          action = nullish (get_prop data ''action'') (Some (JStr []));
          actorName = or_str (actor data) UNKNOWN;
          url = nullish (get_prop comment ''html_url'') (get_prop discussion ''html_url'');
          body = firstLine (get_prop comment ''body'') 200;
          title = nullish (get_prop discussion ''title'') (Some (JStr []));
          head = tmpl [Some ''<b>Discussion comment</b> <b>'', esc N action, Some ''</b> by <b>'',
                       Some (esc_str actorName), Some ''</b>'',
                       (if truthy N title then tmpl [Some '' on <b>'', esc N title, Some ''</b>''] else Some [])]
      in join_lines
           ([head]
            @ (if body \<noteq> [] then [Some (esc_str body)] else [])
            @ (if truthy N url then [Some (link url ''View comment'')] else [])))"

definition summarizeFork :: "'n runtime \<Rightarrow> 'n payload \<Rightarrow> string option" where
  "summarizeFork N payload =
     (let data = ensureMapping (Some (JObj payload));
          repoName = or_str (repo data) ''?'';
          forkee = ensureMapping (get_prop data ''forkee'');
          forkFull = nullish (get_prop forkee ''full_name'') (nullish (get_prop forkee ''name'') (Some (JStr ''?'')));
          forkUrl = nullish (get_prop forkee ''html_url'') (get_prop forkee ''svn_url'');
          actorName = or_str (actor data) UNKNOWN
      in join_lines
           ([Some (''<b>Fork</b> of <code>'' @ esc_str repoName @ ''</code> created by <b>''
                   @ esc_str actorName @ ''</b>''),
             tmpl [Some ''new repo: <code>'', esc N forkFull, Some ''</code>'']]
            @ (if truthy N forkUrl then [Some (link forkUrl ''View fork'')] else [])))"

text \<open>The lines the loop of \<open>summarizeGollum\<close> pushes for one page.\<close>

definition gollum_page :: "'n runtime \<Rightarrow> 'n json \<Rightarrow> string option list" where
  "gollum_page N page =
     (let pageData = ensureMapping (Some page);
          title = nullish (get_prop pageData ''title'') (Some (JStr ''page''));
          action = nullish (get_prop pageData ''action'') (Some (JStr []));
          url = nullish (get_prop pageData ''html_url'') (get_prop pageData ''page_name'')
      in [tmpl [Some (BULLET @ '' <b>''), esc N action, Some ''</b> '', esc N title]]
         @ (if truthy N url then [Some (link url ''View page'')] else []))"

definition summarizeGollum :: "'n runtime \<Rightarrow> 'n payload \<Rightarrow> string option" where
  "summarizeGollum N payload =
     (let data = ensureMapping (Some (JObj payload));
          pages = array_or_empty (get_prop data ''pages'');
          repoName = or_str (repo data) ''?'';
          actorName = or_str (actor data) UNKNOWN
      in join_lines
           ([Some (''<b>Wiki update</b> in <code>'' @ esc_str repoName @ ''</code> by <b>''
                   @ esc_str actorName @ ''</b>'')]
            @ concat (map (gollum_page N) pages)))"

text \<open>
  The sample of at most five repository names, joined by commas, with the count of the
  rest, as \<open>summarizeInstallation\<close> and \<open>summarizeInstallationRepositories\<close> build it.
\<close>

definition repo_sample :: "'n runtime \<Rightarrow> 'n json list \<Rightarrow> string option" where
  "repo_sample N repositories =
     tmpl [map_option (join '', '')
             (those (map (\<lambda>repoInfo.
                        let repoData = ensureMapping (Some repoInfo)
                        in esc N (nullish (get_prop repoData ''full_name'')
                                   (nullish (get_prop repoData ''name'') (Some (JStr ''?'')))))
                      (take 5 repositories))),
           Some (if length repositories > 5
                 then '' '' @ ELLIPSIS @ '' (+'' @ nat_str (length repositories - 5) @ '')''
                 else [])]"

definition summarizeInstallation :: "'n runtime \<Rightarrow> 'n payload \<Rightarrow> string option" where
  "summarizeInstallation N payload =
     (let data = ensureMapping (Some (JObj payload));
          installation = ensureMapping (get_prop data ''installation'');
          action = nullish (get_prop data ''action'') (Some (JStr []));
          account = ensureMapping (get_prop installation ''account'');
          accountLogin = nullish (get_prop account ''login'') (nullish (get_prop account ''name'') (Some (JStr ''?'')));
          repositories = array_or_empty (get_prop installation ''repositories'')
      in join_lines
           ([tmpl [Some ''<b>Installation</b> <b>'', esc N action, Some ''</b> for <b>'', esc N accountLogin,
                   Some ''</b>'']]
            @ (if length repositories > 0
               then [tmpl [Some ''repositories: '', repo_sample N repositories]]
               else [])))"

definition summarizeInstallationRepositories :: "'n runtime \<Rightarrow> 'n payload \<Rightarrow> string option" where
  "summarizeInstallationRepositories N payload =
     (let data = ensureMapping (Some (JObj payload));
          action = nullish (get_prop data ''action'') (Some (JStr []));
          installation = ensureMapping (get_prop data ''installation'');
          account = ensureMapping (get_prop installation ''account'');
          accountLogin = nullish (get_prop account ''login'') (nullish (get_prop account ''name'') (Some (JStr ''?'')));
          added = array_or_empty (get_prop data ''repositories_added'');
          removed = array_or_empty (get_prop data ''repositories_removed'')
      in join_lines
           ([tmpl [Some ''<b>Installation repositories</b> <b>'', esc N action, Some ''</b> for <b>'',
                   esc N accountLogin, Some ''</b>'']]
            @ (if length added > 0 then [tmpl [Some ''added: '', repo_sample N added]] else [])
            @ (if length removed > 0 then [tmpl [Some ''removed: '', repo_sample N removed]] else [])))"

definition summarizeInstallationTarget :: "'n runtime \<Rightarrow> 'n payload \<Rightarrow> string option" where
  "summarizeInstallationTarget N payload =
     (let data = ensureMapping (Some (JObj payload));
          action = nullish (get_prop data ''action'') (Some (JStr []));
          installation = ensureMapping (get_prop data ''installation'');
          account = ensureMapping (get_prop installation ''account'');
          targetType = nullish (get_prop installation ''target_type'') (Some (JStr []));
          login = nullish (get_prop account ''login'') (nullish (get_prop account ''name'') (Some (JStr ''?'')));
          repoSelection = nullish (get_prop installation ''repository_selection'') (Some (JStr []))
      in join_lines
           ([tmpl [Some ''<b>Installation target</b> <b>'', esc N action, Some ''</b> for <b>'', esc N login,
                   Some ''</b>'']]
            @ (if truthy N targetType then [tmpl [Some ''target: <code>'', esc N targetType, Some ''</code>'']] else [])
            @ (if truthy N repoSelection
               then [tmpl [Some ''repository_selection: <code>'', esc N repoSelection, Some ''</code>'']]
               else [])))"

definition summarizeMember :: "'n runtime \<Rightarrow> 'n payload \<Rightarrow> string option" where
  "summarizeMember N payload =
     genericActionSummary N ''Member'' payload
       (no_options\<lparr>subject := OneField ''member'', subjectFields := Some [[''login''], [''name'']]\<rparr>)"

definition summarizeMembership :: "'n runtime \<Rightarrow> 'n payload \<Rightarrow> string option" where
  "summarizeMembership N payload =
     (let data = ensureMapping (Some (JObj payload));
          action = nullish (get_prop data ''action'') (Some (JStr []));
          team = ensureMapping (get_prop data ''team'');
          org = ensureMapping (get_prop data ''organization'');
          user = ensureMapping (get_prop data ''user'');
          teamName = nullish (get_prop team ''name'') (nullish (get_prop team ''slug'') (Some (JStr ''team'')));
          orgLogin = nullish (get_prop org ''login'') (Some (JStr ''?''));
          userLogin = nullish (get_prop user ''login'') (nullish (get_prop user ''name'') (Some (JStr ''?'')))
      in join_lines
           [tmpl [Some ''<b>Membership</b> <b>'', esc N action, Some ''</b> in <b>'', esc N teamName,
                  Some ''</b> @'', esc N orgLogin],
            tmpl [Some ''member: <b>'', esc N userLogin, Some ''</b>'']])"

definition summarizeMeta :: "'n runtime \<Rightarrow> 'n payload \<Rightarrow> string option" where
  "summarizeMeta N payload =
     (let data = ensureMapping (Some (JObj payload));
          hook = ensureMapping (get_prop data ''hook'');
          hookId = nullish (get_prop hook ''id'') (Some (JStr ''?''));
          changes = ensureMapping (get_prop data ''changes'')
      in tmpl [Some ''<b>Meta</b> webhook <code>'', esc N hookId, Some ''</code> updated: '',
               Some (esc_str (json_stringify N (JObj changes)))])"

definition summarizeMilestone :: "'n runtime \<Rightarrow> 'n payload \<Rightarrow> string option" where
  "summarizeMilestone N payload =
     genericActionSummary N ''Milestone'' payload
       (no_options\<lparr>subject := OneField ''milestone'',
                    subjectFields := Some [[''title''], [''description''], [''number'']]\<rparr>)"

definition summarizeOrgBlock :: "'n runtime \<Rightarrow> 'n payload \<Rightarrow> string option" where
  "summarizeOrgBlock N payload =
     (let data = ensureMapping (Some (JObj payload));
          action = nullish (get_prop data ''action'') (Some (JStr []));
          organization = ensureMapping (get_prop data ''organization'');
          blockedUser = ensureMapping (get_prop data ''blocked_user'');
          orgLogin = nullish (get_prop organization ''login'') (Some (JStr ''?''));
          userLogin = nullish (get_prop blockedUser ''login'') (nullish (get_prop blockedUser ''name'') (Some (JStr ''?'')))
      in tmpl [Some ''<b>Org block</b> <b>'', esc N action, Some ''</b> @'', esc N orgLogin, Some '' user <b>'',
               esc N userLogin, Some ''</b>''])"

definition summarizeOrganization :: "'n runtime \<Rightarrow> 'n payload \<Rightarrow> string option" where
  "summarizeOrganization N payload =
     (let data = ensureMapping (Some (JObj payload));
          action = nullish (get_prop data ''action'') (Some (JStr []));
          membership = ensureMapping (get_prop data ''membership'');
          invitation = ensureMapping (get_prop data ''invitation'')
      in join_lines
           ([tmpl [Some ''<b>Organization</b> <b>'', esc N action, Some ''</b>'']]
            @ (if length membership > 0
               then [tmpl [Some ''member: <b>'',
                           esc N (nullish (opt_prop (get_prop membership ''user'') ''login'') (Some (JStr ''?''))),
                           Some ''</b> role <code>'',
                           esc N (nullish (get_prop membership ''role'') (Some (JStr []))), Some ''</code>'']]
               else [])
            @ (if length invitation > 0
               then [tmpl [Some ''invitation: <code>'',
                           esc N (nullish (get_prop invitation ''login'')
                                   (nullish (get_prop invitation ''email'') (Some (JStr ''?'')))),
                           Some ''</code>'']]
               else [])))"

definition summarizePageBuild :: "'n runtime \<Rightarrow> 'n payload \<Rightarrow> string option" where
  "summarizePageBuild N payload =
     (let data = ensureMapping (Some (JObj payload));
          build = ensureMapping (get_prop data ''build'');
          status = nullish (get_prop build ''status'') (Some (JStr []));
          url = nullish (get_prop build ''url'') (Some (JStr []));
          error = ensureMapping (get_prop build ''error'');
          message = nullish (get_prop error ''message'') (Some (JStr []));
          repoName = or_str (repo data) ''?''
      in join_lines
           ([tmpl [Some ''<b>Page build</b> <code>'', Some (esc_str repoName), Some (''</code> '' @ ARROW @ '' <b>''),
                   esc N status, Some ''</b>'']]
            @ (if truthy N message then [esc N message] else [])
            @ (if truthy N url then [Some (link url ''View build'')] else [])))"

definition summarizePersonalAccessTokenRequest :: "'n runtime \<Rightarrow> 'n payload \<Rightarrow> string option" where
  "summarizePersonalAccessTokenRequest N payload =
     (let data = ensureMapping (Some (JObj payload));
          action = nullish (get_prop data ''action'') (Some (JStr []));
          request = ensureMapping (get_prop data ''personal_access_token_request'');
          requestId = nullish (get_prop request ''id'') (Some (JStr ''?''));
          state = nullish (get_prop request ''state'') (Some (JStr []));
          actorName = or_str (actor data) UNKNOWN;
          org = nullish (dig (Some (JObj data)) [''organization'', ''login'']) (Some (JStr ''?''))
      in join_lines
           ([tmpl [Some ''<b>Personal access token request</b> <b>'', esc N action,
                   Some (''</b> '' @ MDASH @ '' request <code>''), esc N requestId, Some ''</code> for @'', esc N org]]
            @ (if truthy N state then [tmpl [Some ''state: <code>'', esc N state, Some ''</code>'']] else [])
            @ [Some (''by <b>'' @ esc_str actorName @ ''</b>'')]))"

definition summarizeProject :: "'n runtime \<Rightarrow> 'n payload \<Rightarrow> string option" where
  "summarizeProject N payload =
     genericActionSummary N ''Project'' payload
       (no_options\<lparr>subject := OneField ''project'', subjectFields := Some [[''name''], [''body''], [''number'']]\<rparr>)"

definition summarizeProjectCard :: "'n runtime \<Rightarrow> 'n payload \<Rightarrow> string option" where
  "summarizeProjectCard N payload =
     genericActionSummary N ''Project card'' payload
       (no_options\<lparr>subject := OneField ''project_card'', subjectFields := Some [[''note''], [''column_name''], [''id'']]\<rparr>)"

definition summarizeProjectColumn :: "'n runtime \<Rightarrow> 'n payload \<Rightarrow> string option" where
  "summarizeProjectColumn N payload =
     genericActionSummary N ''Project column'' payload
       (no_options\<lparr>subject := OneField ''project_column'', subjectFields := Some [[''name''], [''id'']]\<rparr>)"

definition summarizeProjectsV2 :: "'n runtime \<Rightarrow> 'n payload \<Rightarrow> string option" where
  "summarizeProjectsV2 N payload =
     genericActionSummary N ''Project'' payload
       (no_options\<lparr>subject := OneField ''projects_v2'', subjectFields := Some [[''title''], [''number''], [''id'']]\<rparr>)"

definition summarizeProjectsV2Item :: "'n runtime \<Rightarrow> 'n payload \<Rightarrow> string option" where
  "summarizeProjectsV2Item N payload =
     genericActionSummary N ''Project item'' payload
       (no_options\<lparr>subject := OneField ''projects_v2_item'', subjectFields := Some [[''title''], [''content_type''], [''id'']]\<rparr>)"

definition summarizeProjectsV2StatusUpdate :: "'n runtime \<Rightarrow> 'n payload \<Rightarrow> string option" where
  "summarizeProjectsV2StatusUpdate N payload =
     genericActionSummary N ''Project status update'' payload
       (no_options\<lparr>subject := OneField ''projects_v2_status_update'', subjectFields := Some [[''status''], [''title''], [''id'']]\<rparr>)"

definition summarizePublic :: "'n runtime \<Rightarrow> 'n payload \<Rightarrow> string option" where
  "summarizePublic N payload =
     (let data = ensureMapping (Some (JObj payload));
          repoName = or_str (repo data) ''?'';
          actorName = or_str (actor data) UNKNOWN
      in Some (''<b>Repository public</b> <code>'' @ esc_str repoName @ ''</code> by <b>''
               @ esc_str actorName @ ''</b>''))"

definition summarizeRegistryPackage :: "'n runtime \<Rightarrow> 'n payload \<Rightarrow> string option" where
  "summarizeRegistryPackage N payload =
     genericActionSummary N ''Registry package'' payload
       (no_options\<lparr>subject := OneField ''registry_package'', subjectFields := Some [[''name''], [''package_type''], [''id'']]\<rparr>)"

definition summarizeRepository :: "'n runtime \<Rightarrow> 'n payload \<Rightarrow> string option" where
  "summarizeRepository N payload =
     genericActionSummary N ''Repository'' payload
       (no_options\<lparr>subject := OneField ''repository'', subjectFields := Some [[''full_name''], [''name''], [''id'']]\<rparr>)"

text \<open>
  \<open>Object.entries\<close> of a truthy value of type object: the own properties of an object,
  the indexed elements of an array.
\<close>

definition object_entries :: "'n json \<Rightarrow> (string \<times> 'n json) list" where
  "object_entries v =
     (case v of
        JObj kvs \<Rightarrow> kvs
      | JArr xs \<Rightarrow> map (\<lambda>k. (nat_str k, xs ! k)) [0..<length xs]
      | _ \<Rightarrow> [])"

definition summarizeRepositoryDispatch :: "'n runtime \<Rightarrow> 'n payload \<Rightarrow> string option" where
  "summarizeRepositoryDispatch N payload =
     (let data = ensureMapping (Some (JObj payload));
          eventType = nullish (get_prop data ''action'')
                        (nullish (get_prop data ''event_type'') (Some (JStr ''dispatch'')));
          repoName = or_str (repo data) ''?'';
          actorName = or_str (actor data) UNKNOWN;
          clientPayload = get_prop data ''client_payload'';
          entries = (case clientPayload of
                       Some v \<Rightarrow> if is_object clientPayload then take 6 (object_entries v) else []
                     | None \<Rightarrow> [])
      in join_lines
           ([tmpl [Some ''<b>Repository dispatch</b> <code>'', Some (esc_str repoName), Some ''</code> event <code>'',
                   esc N eventType, Some ''</code> by <b>'', Some (esc_str actorName), Some ''</b>'']]
            @ (if length entries > 0
               then [tmpl [Some ''payload: '',
                           map_option (join '', '')
                             (those (map (\<lambda>kv. tmpl [Some (esc_str (fst kv)), Some ''='', esc N (Some (snd kv))])
                                      entries))]]
               else [])))"

definition summarizeRepositoryImport :: "'n runtime \<Rightarrow> 'n payload \<Rightarrow> string option" where
  "summarizeRepositoryImport N payload =
     (let data = ensureMapping (Some (JObj payload));
          status = nullish (get_prop data ''status'') (Some (JStr []));
          repoName = or_str (repo data) ''?'';
          human = nullish (get_prop data ''human_name'') (Some (JStr []));
          progress = get_prop data ''progress''
      in join_lines
           ([tmpl [Some ''<b>Repository import</b> <code>'', Some (esc_str repoName),
                   Some (''</code> '' @ ARROW @ '' <b>''), esc N status, Some ''</b>'']]
            @ (if truthy N human then [esc N human] else [])
            @ (if \<not> is_nullish progress
               then [tmpl [Some ''progress: <code>'', esc N progress, Some ''</code>'']]
               else [])))"

definition summarizeRepositoryRuleset :: "'n runtime \<Rightarrow> 'n payload \<Rightarrow> string option" where
  "summarizeRepositoryRuleset N payload =
     genericActionSummary N ''Repository ruleset'' payload
       (no_options\<lparr>subject := OneField ''ruleset'', subjectFields := Some [[''name''], [''target''], [''id'']]\<rparr>)"

definition summarizeRepositoryVulnerabilityAlert :: "'n runtime \<Rightarrow> 'n payload \<Rightarrow> string option" where
  "summarizeRepositoryVulnerabilityAlert N payload =
     (let data = ensureMapping (Some (JObj payload));
          alert = ensureMapping (get_prop data ''alert'');
          action = nullish (get_prop data ''action'') (Some (JStr []));
          repoName = or_str (repo data) ''?'';
          actorName = or_str (actor data) UNKNOWN;
          dependency = ensureMapping (get_prop alert ''affected_package'');
          packageName = nullish (get_prop dependency ''name'')
                          (nullish (dig (Some (JObj alert)) [''security_advisory'', ''summary''])
                             (Some (JStr ''dependency'')));
          severity = nullish (dig (Some (JObj alert)) [''security_advisory'', ''severity'']) (Some (JStr []));
          url = dig (Some (JObj alert)) [''security_advisory'', ''html_url'']
      in join_lines
           ([tmpl [Some ''<b>Repository vulnerability alert</b> <code>'', Some (esc_str repoName),
                   Some ''</code> <b>'', esc N action, Some (''</b> '' @ MDASH @ '' <b>''), esc N packageName,
                   Some ''</b> by <b>'', Some (esc_str actorName), Some ''</b>'']]
            @ (if truthy N severity then [tmpl [Some ''severity: <code>'', esc N severity, Some ''</code>'']] else [])
            @ (if truthy N url then [Some (link url ''View advisory'')] else [])))"

definition summarizeSecretScanningAlert :: "'n runtime \<Rightarrow> 'n payload \<Rightarrow> string option" where
  "summarizeSecretScanningAlert N payload =
     (let data = ensureMapping (Some (JObj payload));
          alert = ensureMapping (get_prop data ''alert'');
          action = nullish (get_prop data ''action'') (Some (JStr []));
          repoName = or_str (repo data) ''?'';
          secretType = nullish (get_prop alert ''secret_type_display_name'')
                         (nullish (get_prop alert ''secret_type'') (Some (JStr ''secret'')));
          state = nullish (get_prop alert ''state'') (Some (JStr []));
          url = get_prop alert ''html_url''
      in join_lines
           ([tmpl [Some ''<b>Secret scanning alert</b> <code>'', Some (esc_str repoName), Some ''</code> <b>'',
                   esc N action, Some (''</b> '' @ MDASH @ '' <b>''), esc N secretType, Some ''</b>'']]
            @ (if truthy N state then [tmpl [Some ''state: <code>'', esc N state, Some ''</code>'']] else [])
            @ (if truthy N url then [Some (link url ''View alert'')] else [])))"

definition summarizeSecretScanningAlertLocation :: "'n runtime \<Rightarrow> 'n payload \<Rightarrow> string option" where
  "summarizeSecretScanningAlertLocation N payload =
     (let data = ensureMapping (Some (JObj payload));
          location = ensureMapping (get_prop data ''location'');
          alert = ensureMapping (get_prop data ''alert'');
          repoName = or_str (repo data) ''?'';
          typeName = nullish (get_prop location ''type'') (Some (JStr ''location''));
          details = ensureMapping (get_prop location ''details'');
          path = nullish (get_prop details ''path'') (Some (JStr []));
          url = get_prop alert ''html_url''
      in join_lines
           ([tmpl [Some ''<b>Secret scanning location</b> <code>'', Some (esc_str repoName),
                   Some (''</code> '' @ ARROW @ '' <b>''), esc N typeName, Some ''</b>'']]
            @ (if truthy N path then [tmpl [Some ''path: <code>'', esc N path, Some ''</code>'']] else [])
            @ (if truthy N url then [Some (link url ''View alert'')] else [])))"

definition summarizeSecretScanningScan :: "'n runtime \<Rightarrow> 'n payload \<Rightarrow> string option" where
  "summarizeSecretScanningScan N payload = genericActionSummary N ''Secret scanning scan'' payload no_options"

definition summarizeSecurityAdvisory :: "'n runtime \<Rightarrow> 'n payload \<Rightarrow> string option" where
  "summarizeSecurityAdvisory N payload =
     genericActionSummary N ''Security advisory'' payload
       (no_options\<lparr>subject := OneField ''security_advisory'', subjectFields := Some [[''summary''], [''ghsa_id''], [''cve_id'']]\<rparr>)"

definition summarizeSecurityAndAnalysis :: "'n runtime \<Rightarrow> 'n payload \<Rightarrow> string option" where
  "summarizeSecurityAndAnalysis N payload =
     genericActionSummary N ''Security & analysis'' payload
       (no_options\<lparr>subject := OneField ''security_and_analysis''\<rparr>)"

definition summarizeSponsorship :: "'n runtime \<Rightarrow> 'n payload \<Rightarrow> string option" where
  "summarizeSponsorship N payload =
     (let data = ensureMapping (Some (JObj payload));
          action = nullish (get_prop data ''action'') (Some (JStr []));
          sponsorship = ensureMapping (get_prop data ''sponsorship'');
          sponsor = nullish (get_prop sponsorship ''sponsor'') (get_prop sponsorship ''account'');
          sponsorName = nullish (get_prop (ensureMapping sponsor) ''login'')
                          (nullish (get_prop (ensureMapping sponsor) ''name'') (Some (JStr ''sponsor'')));
          sponsorable = ensureMapping (get_prop sponsorship ''sponsorable'');
          sponsorableName = nullish (get_prop sponsorable ''login'')
                              (nullish (get_prop sponsorable ''name'') (Some (JStr ''sponsorable'')));
          tier = ensureMapping (get_prop sponsorship ''tier'');
          amount = nullish (get_prop tier ''monthly_price_in_dollars'')
                     (nullish (get_prop tier ''monthly_price'') (Some (JStr [])));
          tierName = nullish (get_prop tier ''name'') (Some (JStr []))
      in join_lines
           ([tmpl [Some ''<b>Sponsorship</b> <b>'', esc N action, Some (''</b> '' @ MDASH @ '' <b>''),
                   esc N sponsorName, Some (''</b> '' @ ARROW @ '' <b>''), esc N sponsorableName, Some ''</b>'']]
            @ (if truthy N tierName then [tmpl [Some ''tier: <code>'', esc N tierName, Some ''</code>'']] else [])
            @ (if truthy N amount then [tmpl [Some ''amount: <code>'', esc N amount, Some ''</code>'']] else [])))"

definition summarizeStar :: "'n runtime \<Rightarrow> 'n payload \<Rightarrow> string option" where
  "summarizeStar N payload =
     (let data = ensureMapping (Some (JObj payload));
          action = nullish (get_prop data ''action'') (Some (JStr []));
          repoName = or_str (repo data) ''?'';
          actorName = or_str (actor data) UNKNOWN
      in tmpl [Some ''<b>Star</b> <code>'', Some (esc_str repoName), Some ''</code> <b>'', esc N action,
               Some ''</b> by <b>'', Some (esc_str actorName), Some ''</b>''])"

definition summarizeSubIssues :: "'n runtime \<Rightarrow> 'n payload \<Rightarrow> string option" where
  "summarizeSubIssues N payload =
     genericActionSummary N ''Sub-issues'' payload
       (no_options\<lparr>subject := Several [Field ''sub_issue'', Field ''issue''], subjectFields := Some [[''title''], [''number'']]\<rparr>)"

definition summarizeTeam :: "'n runtime \<Rightarrow> 'n payload \<Rightarrow> string option" where
  "summarizeTeam N payload =
     genericActionSummary N ''Team'' payload
       (no_options\<lparr>subject := OneField ''team'', subjectFields := Some [[''name''], [''slug''], [''id'']]\<rparr>)"

definition summarizeTeamAdd :: "'n runtime \<Rightarrow> 'n payload \<Rightarrow> string option" where
  "summarizeTeamAdd N payload =
     (let data = ensureMapping (Some (JObj payload));
          team = ensureMapping (get_prop data ''team'');
          repoData = ensureMapping (get_prop data ''repository'');
          teamName = nullish (get_prop team ''name'') (nullish (get_prop team ''slug'') (Some (JStr ''team'')));
          repoName = nullish (get_prop repoData ''full_name'')
                       (nullish (get_prop repoData ''name'') (Some (JStr ''repository'')))
      in tmpl [Some ''<b>Team add</b> team <b>'', esc N teamName, Some ''</b> added to <code>'', esc N repoName,
               Some ''</code>''])"

definition summarizeWatch :: "'n runtime \<Rightarrow> 'n payload \<Rightarrow> string \<Rightarrow> string option" where
  "summarizeWatch N payload event =
     (let data = ensureMapping (Some (JObj payload));
          action = nullish (get_prop data ''action'') (Some (JStr ''started''));
          repoName = or_str (repo data) ''?'';
          actorName = or_str (actor data) UNKNOWN
      in tmpl [Some ''<b>'', Some (esc_str (prettyLabel event)), Some ''</b> <code>'', Some (esc_str repoName),
               Some ''</code> <b>'', esc N action, Some ''</b> by <b>'', Some (esc_str actorName), Some ''</b>''])"

definition summarizeWorkflowDispatch :: "'n runtime \<Rightarrow> 'n payload \<Rightarrow> string option" where
  "summarizeWorkflowDispatch N payload =
     genericActionSummary N ''Workflow dispatch'' payload
       (no_options\<lparr>subject := OneField ''workflow'', subjectFields := Some [[''name''], [''path'']]\<rparr>)"

definition summarizeWorkflowJob :: "'n runtime \<Rightarrow> 'n payload \<Rightarrow> string option" where
  "summarizeWorkflowJob N payload =
     (let data = ensureMapping (Some (JObj payload));
          action = nullish (get_prop data ''action'') (Some (JStr []));
          workflowJob = ensureMapping (get_prop data ''workflow_job'');
          name = nullish (get_prop workflowJob ''name'') (Some (JStr ''job''));
          status = nullish (get_prop workflowJob ''status'') (Some (JStr []));
          conclusion = nullish (get_prop workflowJob ''conclusion'') (Some (JStr []));
          steps = array_or_empty (get_prop workflowJob ''steps'')
      in join_lines
           ([tmpl [Some ''<b>Workflow job</b> <b>'', esc N action, Some (''</b> '' @ MDASH @ '' <b>''), esc N name,
                   Some ''</b>'']]
            @ (if truthy N status then [tmpl [Some ''status: <code>'', esc N status, Some ''</code>'']] else [])
            @ (if truthy N conclusion
               then [tmpl [Some ''conclusion: <code>'', esc N conclusion, Some ''</code>'']] else [])
            @ (if length steps > 0
               then map (\<lambda>step.
                          let stepData = ensureMapping (Some step)
                          in tmpl [Some (BULLET @ '' ''),
                                   esc N (nullish (get_prop stepData ''name'') (Some (JStr ''step''))),
                                   Some '' ('',
                                   esc N (nullish (get_prop stepData ''conclusion'')
                                           (nullish (get_prop stepData ''status'') (Some (JStr [])))),
                                   Some '')''])
                      (take 5 steps)
                    @ (if length steps > 5
                       then [Some (''<i>+'' @ nat_str (length steps - 5) @ '' more steps</i>'')]
                       else [])
               else [])))"

definition summarizeWorkflowRun :: "'n runtime \<Rightarrow> 'n payload \<Rightarrow> string option" where
  "summarizeWorkflowRun N payload =
     (let data = ensureMapping (Some (JObj payload));
          action = nullish (get_prop data ''action'') (Some (JStr []));
          workflowRun = ensureMapping (get_prop data ''workflow_run'');
          name = nullish (get_prop workflowRun ''name'') (Some (JStr ''workflow''));
          status = nullish (get_prop workflowRun ''status'') (Some (JStr []));
          conclusion = nullish (get_prop workflowRun ''conclusion'') (Some (JStr []));
          url = nullish (get_prop workflowRun ''html_url'') (get_prop workflowRun ''url'');
          repoName = or_str (repo data) ''?''
      in join_lines
           ([tmpl [Some ''<b>Workflow run</b> <code>'', Some (esc_str repoName), Some ''</code> <b>'', esc N action,
                   Some (''</b> '' @ MDASH @ '' <b>''), esc N name, Some ''</b>'']]
            @ (if truthy N status then [tmpl [Some ''status: <code>'', esc N status, Some ''</code>'']] else [])
            @ (if truthy N conclusion
               then [tmpl [Some ''conclusion: <code>'', esc N conclusion, Some ''</code>'']] else [])
            @ (if truthy N url then [Some (link url ''View run'')] else [])))"

definition summarizeCheckRun :: "'n runtime \<Rightarrow> 'n payload \<Rightarrow> string option" where
  "summarizeCheckRun N payload =
     (let data = ensureMapping (Some (JObj payload));
          action = nullish (get_prop data ''action'') (Some (JStr []));
          checkRun = ensureMapping (get_prop data ''check_run'');
          name = nullish (get_prop checkRun ''name'') (Some (JStr ''check''));
          status = nullish (get_prop checkRun ''status'') (Some (JStr []));
          conclusion = nullish (get_prop checkRun ''conclusion'') (Some (JStr []));
          url = nullish (get_prop checkRun ''html_url'') (get_prop checkRun ''details_url'');
          output = ensureMapping (get_prop checkRun ''output'');
          summary = firstLine (get_prop output ''summary'') 200;
          text = firstLine (get_prop output ''text'') 200
      in join_lines
           ([tmpl [Some ''<b>Check run</b> <b>'', esc N action, Some (''</b> '' @ MDASH @ '' <b>''), esc N name,
                   Some ''</b>'']]
            @ (if truthy N status then [tmpl [Some ''status: <code>'', esc N status, Some ''</code>'']] else [])
            @ (if truthy N conclusion
               then [tmpl [Some ''conclusion: <code>'', esc N conclusion, Some ''</code>'']] else [])
            @ (if summary \<noteq> [] then [Some (esc_str summary)]
               else if text \<noteq> [] then [Some (esc_str text)] else [])
            @ (if truthy N url then [Some (link url ''View check'')] else [])))"

definition summarizeCheckSuite :: "'n runtime \<Rightarrow> 'n payload \<Rightarrow> string option" where
  "summarizeCheckSuite N payload =
     (let data = ensureMapping (Some (JObj payload));
          action = nullish (get_prop data ''action'') (Some (JStr []));
          checkSuite = ensureMapping (get_prop data ''check_suite'');
          status = nullish (get_prop checkSuite ''status'') (Some (JStr []));
          conclusion = nullish (get_prop checkSuite ''conclusion'') (Some (JStr []));
          url = nullish (get_prop checkSuite ''html_url'') (get_prop checkSuite ''url'')
      in join_lines
           ([tmpl [Some ''<b>Check suite</b> <b>'', esc N action, Some ''</b>'']]
            @ (if truthy N status then [tmpl [Some ''status: <code>'', esc N status, Some ''</code>'']] else [])
            @ (if truthy N conclusion
               then [tmpl [Some ''conclusion: <code>'', esc N conclusion, Some ''</code>'']] else [])
            @ (if truthy N url then [Some (link url ''View suite'')] else [])))"

definition summarizeCodeScanningAlert :: "'n runtime \<Rightarrow> 'n payload \<Rightarrow> string option" where
  "summarizeCodeScanningAlert N payload =
     (let data = ensureMapping (Some (JObj payload));
          action = nullish (get_prop data ''action'') (Some (JStr []));
          alert = ensureMapping (get_prop data ''alert'');
          rule = ensureMapping (get_prop alert ''rule'');
          ruleId = nullish (get_prop rule ''id'')
                     (nullish (get_prop rule ''security_severity_level'') (Some (JStr ''rule'')));
          severity = nullish (get_prop alert ''severity'')
                       (nullish (get_prop alert ''security_severity_level'') (Some (JStr [])));
          url = nullish (get_prop alert ''html_url'') (Some (JStr []))
      in join_lines
           ([tmpl [Some ''<b>Code scanning alert</b> <b>'', esc N action, Some (''</b> '' @ MDASH @ '' <b>''),
                   esc N ruleId, Some ''</b>'']]
            @ (if truthy N severity then [tmpl [Some ''severity: <code>'', esc N severity, Some ''</code>'']] else [])
            @ (if truthy N url then [Some (link url ''View alert'')] else [])))"

text \<open>
  \<open>commitId.slice(0, 7)\<close> on a truthy value: strings and arrays have the method, every
  other value throws.
\<close>

definition slice7 :: "'n json option \<Rightarrow> 'n json option" where
  "slice7 v =
     (case v of
        Some (JStr s) \<Rightarrow> Some (JStr (take 7 s))
      | Some (JArr xs) \<Rightarrow> Some (JArr (take 7 xs))
      | _ \<Rightarrow> None)"

definition summarizeCommitComment :: "'n runtime \<Rightarrow> 'n payload \<Rightarrow> string option" where
  "summarizeCommitComment N payload =
     (let data = ensureMapping (Some (JObj payload));
          comment = ensureMapping (get_prop data ''comment'');
          repoName = or_str (repo data) ''?'';
          actorName = or_str (actor data) UNKNOWN;
          body = firstLine (get_prop comment ''body'') 200;
          url = get_prop comment ''html_url'';
          commitId = nullish (get_prop comment ''commit_id'') (Some (JStr []))
      in join_lines
           ([Some (''<b>Commit comment</b> on <code>'' @ esc_str repoName @ ''</code> by <b>''
                   @ esc_str actorName @ ''</b>'')]
            @ (if truthy N commitId
               then [tmpl [Some ''sha: <code>'',
                           (case slice7 commitId of None \<Rightarrow> None | Some sliced \<Rightarrow> esc N (Some sliced)),
                           Some ''</code>'']]
               else [])
            @ (if body \<noteq> [] then [Some (esc_str body)] else [])
            @ (if truthy N url then [Some (link url ''View comment'')] else [])))"

definition summarizeDependabotAlert :: "'n runtime \<Rightarrow> 'n payload \<Rightarrow> string option" where
  "summarizeDependabotAlert N payload =
     (let data = ensureMapping (Some (JObj payload));
          action = nullish (get_prop data ''action'') (Some (JStr []));
          alert = ensureMapping (get_prop data ''alert'');
          dependency = ensureMapping (get_prop alert ''dependency'');
          packageName = nullish (opt_prop (get_prop dependency ''package'') ''name'') (Some (JStr ''dependency''));
          severity = nullish (opt_prop (get_prop alert ''security_vulnerability'') ''severity'') (Some (JStr []));
          advisoryUrl = nullish (opt_prop (get_prop alert ''security_advisory'') ''ghsa_id'') (Some (JStr []))
      in join_lines
           ([tmpl [Some ''<b>Dependabot alert</b> <b>'', esc N action, Some (''</b> '' @ MDASH @ '' <b>''),
                   esc N packageName, Some ''</b>'']]
            @ (if truthy N severity then [tmpl [Some ''severity: <code>'', esc N severity, Some ''</code>'']] else [])
            @ (if truthy N advisoryUrl
               then [tmpl [Some ''advisory: <code>'', esc N advisoryUrl, Some ''</code>'']] else [])))"

definition summarizeLabel :: "'n runtime \<Rightarrow> 'n payload \<Rightarrow> string option" where
  "summarizeLabel N payload =
     genericActionSummary N ''Label'' payload
       (no_options\<lparr>subject := OneField ''label'', subjectFields := Some [[''name''], [''color''], [''id'']]\<rparr>)"

definition summarizePackage :: "'n runtime \<Rightarrow> 'n payload \<Rightarrow> string option" where
  "summarizePackage N payload =
     genericActionSummary N ''Package'' payload
       (no_options\<lparr>subject := OneField ''package'', subjectFields := Some [[''name''], [''package_type''], [''id'']]\<rparr>)"

definition summarizeRepositoryAdvisory :: "'n runtime \<Rightarrow> 'n payload \<Rightarrow> string option" where
  "summarizeRepositoryAdvisory N payload =
     genericActionSummary N ''Repository advisory'' payload
       (no_options\<lparr>subject := OneField ''repository_advisory'', subjectFields := Some [[''summary''], [''ghsa_id''], [''cve_id'']]\<rparr>)"

definition summarizeCustomProperty :: "'n runtime \<Rightarrow> 'n payload \<Rightarrow> string option" where
  "summarizeCustomProperty N payload =
     genericActionSummary N ''Custom property'' payload
       (no_options\<lparr>subject := OneField ''custom_property'', subjectFields := Some [[''name''], [''full_name''], [''id'']]\<rparr>)"

definition summarizeCustomPropertyValues :: "'n runtime \<Rightarrow> 'n payload \<Rightarrow> string option" where
  "summarizeCustomPropertyValues N payload =
     (let data = ensureMapping (Some (JObj payload));
          repoName = or_str (repo data) ''?'';
          actorName = or_str (actor data) UNKNOWN;
          newValues = array_or_empty (get_prop data ''new_property_values'');
          oldValues = array_or_empty (get_prop data ''old_property_values'')
      in Some (join [LF]
           ([''<b>Custom property values</b> updated in <code>'' @ esc_str repoName @ ''</code> by <b>''
             @ esc_str actorName @ ''</b>'']
            @ (if length newValues > 0 then [nat_str (length newValues) @ '' new values''] else [])
            @ (if length oldValues > 0 then [nat_str (length oldValues) @ '' previous values''] else []))))"

definition summarizeDeployKey :: "'n runtime \<Rightarrow> 'n payload \<Rightarrow> string option" where
  "summarizeDeployKey N payload =
     genericActionSummary N ''Deploy key'' payload
       (no_options\<lparr>subject := OneField ''key'', subjectFields := Some [[''title''], [''id''], [''fingerprint'']]\<rparr>)"

definition summarizeGithubAppAuthorization :: "'n runtime \<Rightarrow> 'n payload \<Rightarrow> string option" where
  "summarizeGithubAppAuthorization N payload =
     (let data = ensureMapping (Some (JObj payload));
          action = nullish (get_prop data ''action'') (Some (JStr []));
          user = ensureMapping (get_prop data ''sender'');
          login = nullish (get_prop user ''login'') (nullish (get_prop user ''name'') (Some (JStr ''user'')))
      in tmpl [Some ''<b>GitHub App authorization</b> <b>'', esc N action, Some ''</b> by <b>'', esc N login,
               Some ''</b>''])"

definition summarizeIssueDependencies :: "'n runtime \<Rightarrow> 'n payload \<Rightarrow> string option" where
  "summarizeIssueDependencies N payload =
     genericActionSummary N ''Issue dependencies'' payload
       (no_options\<lparr>subject := Several [Field ''dependent'', Field ''issue''], subjectFields := Some [[''title''], [''number'']]\<rparr>)"

definition summarizeBranchProtectionConfiguration :: "'n runtime \<Rightarrow> 'n payload \<Rightarrow> string option" where
  "summarizeBranchProtectionConfiguration N payload =
     genericActionSummary N ''Branch protection configuration'' payload no_options"

definition summarizeBranchProtectionRule :: "'n runtime \<Rightarrow> 'n payload \<Rightarrow> string option" where
  "summarizeBranchProtectionRule N payload =
     genericActionSummary N ''Branch protection rule'' payload
       (no_options\<lparr>subject := OneField ''rule'', subjectFields := Some [[''name''], [''pattern''], [''id'']]\<rparr>)"

text \<open>
  The marketplace summary multiplies the unit price by the unit count, each converted to
  a number, and interpolates the two operands and the product as they are, without
  \<open>esc\<close>.
\<close>

definition summarizeMarketplacePurchase :: "'n runtime \<Rightarrow> 'n payload \<Rightarrow> string option" where
  "summarizeMarketplacePurchase N payload =
     (let data = ensureMapping (Some (JObj payload));
          action = nullish (get_prop data ''action'') (Some (JStr []));
          account = ensureMapping (opt_prop (get_prop data ''marketplace_purchase'') ''account'');
          login = nullish (get_prop account ''login'') (nullish (get_prop account ''name'') (Some (JStr ''?'')));
          plan = ensureMapping (opt_prop (get_prop data ''marketplace_purchase'') ''plan'');
          planName = nullish (get_prop plan ''name'') (Some (JStr ''plan''));
          unitPrice = (case nullish (get_prop plan ''price_per_unit'') None of
                         None \<Rightarrow> JNum (nat_num N 0) | Some v \<Rightarrow> v);
          unitCount = (case nullish (opt_prop (get_prop data ''marketplace_purchase'') ''units'') None of
                         None \<Rightarrow> JNum (nat_num N 0) | Some v \<Rightarrow> v)
      in case to_number N unitPrice of
           None \<Rightarrow> None
         | Some price \<Rightarrow>
             (case to_number N unitCount of
                None \<Rightarrow> None
              | Some units \<Rightarrow>
                  join_lines
                    [tmpl [Some ''<b>Marketplace purchase</b> <b>'', esc N action, Some ''</b> by <b>'',
                           esc N login, Some ''</b>''],
                     tmpl [Some ''plan: <code>'', esc N planName, Some ''</code> ('', to_str N unitCount,
                           Some ('' '' @ TIMES @ '' ''), to_str N unitPrice, Some '') = '',
                           Some (num_str N (num_times N price units))]]))"

definition summarizeMergeGroup :: "'n runtime \<Rightarrow> 'n payload \<Rightarrow> string option" where
  "summarizeMergeGroup N payload =
     (let data = ensureMapping (Some (JObj payload));
          action = nullish (get_prop data ''action'') (Some (JStr []));
          mergeGroup = ensureMapping (get_prop data ''merge_group'');
          headCommit = nullish (get_prop mergeGroup ''head_commit'') (Some (JStr []));
          headSha = (case headCommit of Some (JStr h) \<Rightarrow> take 7 h | _ \<Rightarrow> [])
      in tmpl [Some ''<b>Merge group</b> <b>'', esc N action, Some ''</b> head <code>'', Some (esc_str headSha),
               Some ''</code>''])"

definition summarizeMetaEvent :: "'n runtime \<Rightarrow> 'n payload \<Rightarrow> string option" where
  "summarizeMetaEvent N payload = summarizeMeta N payload"

definition summarizeOrg :: "'n runtime \<Rightarrow> 'n payload \<Rightarrow> string option" where
  "summarizeOrg N payload = summarizeOrganization N payload"

definition summarizeSponsorshipEvent :: "'n runtime \<Rightarrow> 'n payload \<Rightarrow> string option" where
  "summarizeSponsorshipEvent N payload = summarizeSponsorship N payload"

definition summarizeWatchDefault :: "'n runtime \<Rightarrow> 'n payload \<Rightarrow> string \<Rightarrow> string option" where
  "summarizeWatchDefault N payload event = summarizeWatch N payload event"

definition summarizeWorkflow :: "'n runtime \<Rightarrow> 'n payload \<Rightarrow> string option" where
  "summarizeWorkflow N payload = summarizeWorkflowRun N payload"

subsection \<open>The dispatch table and the entry point\<close>

text \<open>
  A handler takes the payload and the event key. In the embedding it takes the runtime
  as well. \<open>EVENTS_METADATA\<close> maps each event name to a record with an optional
  handler and an optional label; a handler written for the payload alone ignores the
  event key it is called with.
\<close>

type_synonym 'n handler = "'n runtime \<Rightarrow> 'n payload \<Rightarrow> string \<Rightarrow> string option"

record 'n meta =
  handler :: "'n handler option"
  label :: "string option"

definition of_payload :: "('n runtime \<Rightarrow> 'n payload \<Rightarrow> string option) \<Rightarrow> 'n meta" where
  "of_payload f = \<lparr>handler = Some (\<lambda>N payload event. f N payload), label = None\<rparr>"

definition of_payload_event :: "'n handler \<Rightarrow> 'n meta" where
  "of_payload_event f = \<lparr>handler = Some f, label = None\<rparr>"

definition EVENTS_METADATA :: "(string \<times> 'n meta) list" where
  "EVENTS_METADATA =
     [(''branch_protection_configuration'', of_payload summarizeBranchProtectionConfiguration),
      (''branch_protection_rule'', of_payload summarizeBranchProtectionRule),
      (''check_run'', of_payload summarizeCheckRun),
      (''check_suite'', of_payload summarizeCheckSuite),
      (''code_scanning_alert'', of_payload summarizeCodeScanningAlert),
      (''commit_comment'', of_payload summarizeCommitComment),
      (''create'', of_payload summarizeCreate),
      (''custom_property'', of_payload summarizeCustomProperty),
      (''custom_property_values'', of_payload summarizeCustomPropertyValues),
      (''delete'', of_payload summarizeDelete),
      (''dependabot_alert'', of_payload summarizeDependabotAlert),
      (''deploy_key'', of_payload summarizeDeployKey),
      (''deployment'', of_payload summarizeDeployment),
      (''deployment_protection_rule'', of_payload summarizeDeploymentProtectionRule),
      (''deployment_review'', of_payload summarizeDeploymentReview),
      (''deployment_status'', of_payload summarizeDeploymentStatus),
      (''discussion'', of_payload summarizeDiscussion),
      (''discussion_comment'', of_payload summarizeDiscussionComment),
      (''fork'', of_payload summarizeFork),
      (''github_app_authorization'', of_payload summarizeGithubAppAuthorization),
      (''gollum'', of_payload summarizeGollum),
      (''installation'', of_payload summarizeInstallation),
      (''installation_repositories'', of_payload summarizeInstallationRepositories),
      (''installation_target'', of_payload summarizeInstallationTarget),
      (''issue_comment'', of_payload summarizeIssueComment),
      (''issue_dependencies'', of_payload summarizeIssueDependencies),
      (''issues'', of_payload summarizeIssues),
      (''label'', of_payload summarizeLabel),
      (''marketplace_purchase'', of_payload summarizeMarketplacePurchase),
      (''member'', of_payload summarizeMember),
      (''membership'', of_payload summarizeMembership),
      (''merge_group'', of_payload summarizeMergeGroup),
      (''meta'', of_payload summarizeMetaEvent),
      (''milestone'', of_payload summarizeMilestone),
      (''org_block'', of_payload summarizeOrgBlock),
      (''organization'', of_payload summarizeOrganization),
      (''package'', of_payload summarizePackage),
      (''page_build'', of_payload summarizePageBuild),
      (''personal_access_token_request'', of_payload summarizePersonalAccessTokenRequest),
      (''ping'', of_payload summarizePing),
      (''project'', of_payload summarizeProject),
      (''project_card'', of_payload summarizeProjectCard),
      (''project_column'', of_payload summarizeProjectColumn),
      (''projects_v2'', of_payload summarizeProjectsV2),
      (''projects_v2_item'', of_payload summarizeProjectsV2Item),
      (''projects_v2_status_update'', of_payload summarizeProjectsV2StatusUpdate),
      (''public'', of_payload summarizePublic),
      (''pull_request'', of_payload summarizePullRequest),
      (''pull_request_review'', of_payload summarizePullRequestReview),
      (''pull_request_review_comment'', of_payload summarizePullRequestReviewComment),
      (''pull_request_review_thread'', of_payload summarizePullRequestReviewThread),
      (''push'', of_payload summarizePush),
      (''registry_package'', of_payload summarizeRegistryPackage),
      (''release'', of_payload summarizeRelease),
      (''repository'', of_payload summarizeRepository),
      (''repository_advisory'', of_payload summarizeRepositoryAdvisory),
      (''repository_dispatch'', of_payload summarizeRepositoryDispatch),
      (''repository_import'', of_payload summarizeRepositoryImport),
      (''repository_ruleset'', of_payload summarizeRepositoryRuleset),
      (''repository_vulnerability_alert'', of_payload summarizeRepositoryVulnerabilityAlert),
      (''secret_scanning_alert'', of_payload summarizeSecretScanningAlert),
      (''secret_scanning_alert_location'', of_payload summarizeSecretScanningAlertLocation),
      (''secret_scanning_scan'', of_payload summarizeSecretScanningScan),
      (''security_advisory'', of_payload summarizeSecurityAdvisory),
      (''security_and_analysis'', of_payload summarizeSecurityAndAnalysis),
      (''sponsorship'', of_payload summarizeSponsorshipEvent),
      (''star'', of_payload summarizeStar),
      (''status'', of_payload summarizeStatus),
      (''sub_issues'', of_payload summarizeSubIssues),
      (''team'', of_payload summarizeTeam),
      (''team_add'', of_payload summarizeTeamAdd),
      (''watch'', of_payload_event summarizeWatchDefault),
      (''workflow_dispatch'', of_payload summarizeWorkflowDispatch),
      (''workflow_job'', of_payload summarizeWorkflowJob),
      (''workflow_run'', of_payload summarizeWorkflowRun)]"

text \<open>
  The loop that fills \<open>HANDLERS\<close>: an entry with a handler keeps it; one without gets a
  generic summary under its label, falling back when that summary is empty.
\<close>

definition handler_entry :: "string \<times> 'n meta \<Rightarrow> string \<times> 'n handler" where
  "handler_entry entry =
     (case entry of
        (event, m) \<Rightarrow>
          (event,
           case handler m of
             Some h \<Rightarrow> h
           | None \<Rightarrow>
               (\<lambda>N payload evt.
                  map_option (\<lambda>s. if s \<noteq> [] then s else fallbackSummary evt payload)
                    (genericActionSummary N
                       (case label m of Some l \<Rightarrow> l | None \<Rightarrow> prettyLabel event)
                       payload no_options))))"

definition HANDLERS_own :: "string \<Rightarrow> 'n handler option" where
  "HANDLERS_own = map_of (map handler_entry EVENTS_METADATA)"

text \<open>
  \<open>HANDLERS\<close> is created by the literal \<open>{}\<close>, so it inherits from
  \<open>Object.prototype\<close>, and \<open>HANDLERS[eventKey]\<close> with a computed key finds inherited
  members as well as own ones. The key has been lower-cased, and of the names on
  \<open>Object.prototype\<close> only \<open>constructor\<close> and \<open>__proto__\<close> are spelled without a
  capital letter: the first yields the function \<open>Object\<close>, the second the prototype
  object itself.
\<close>

datatype 'n slot =
    Handler "'n handler"
  | ObjectFunction
  | ObjectPrototype
  | Undefined

definition HANDLERS :: "string \<Rightarrow> 'n slot" where
  "HANDLERS key =
     (case HANDLERS_own key of
        Some h \<Rightarrow> Handler h
      | None \<Rightarrow>
          if key = ''constructor'' then ObjectFunction
          else if key = ''__proto__'' then ObjectPrototype
          else Undefined)"

text \<open>
  The entry point. Its result is a JavaScript value: the string a handler or the
  fallback returns, or, when the looked-up member is the function \<open>Object\<close>, what
  \<open>Object(mappedPayload, eventKey)\<close> returns, which is its first argument. Calling the
  prototype object, which is truthy but no function, throws inside the \<open>try\<close> block and
  ends in the fallback.
\<close>

definition summarizeGithubEvent :: "'n runtime \<Rightarrow> string \<Rightarrow> 'n json \<Rightarrow> 'n json" where
  "summarizeGithubEvent N event payload =
     (let eventKey = toLowerCase (if event \<noteq> [] then event else []);
          mappedPayload = ensureMapping (Some payload)
      in case HANDLERS eventKey of
           Handler h \<Rightarrow>
             (case h N mappedPayload eventKey of
                Some s \<Rightarrow> JStr s
              | None \<Rightarrow> JStr (fallbackSummary eventKey mappedPayload))
         | ObjectFunction \<Rightarrow> JObj mappedPayload
         | ObjectPrototype \<Rightarrow> JStr (fallbackSummary eventKey mappedPayload)
         | Undefined \<Rightarrow> JStr (fallbackSummary eventKey mappedPayload))"

subsection \<open>An integer instance of the runtime\<close>

text \<open>
  For evaluating the engine on examples: numbers are the integers and NaN, rendered in
  decimal. The instance agrees with JavaScript on integers of magnitude below \<open>2^53\<close>
  whose products stay below it, and on strings that spell a decimal integer or no
  number literal at all.
\<close>

datatype jsnum = Whole int | NaN

definition int_str :: "int \<Rightarrow> string" where
  "int_str i = (if i < 0 then ''-'' @ nat_str (nat (- i)) else nat_str (nat i))"

definition is_digit :: "char \<Rightarrow> bool" where
  "is_digit c = (CHR ''0'' \<le> c \<and> c \<le> CHR ''9'')"

definition digits_value :: "string \<Rightarrow> nat" where
  "digits_value ds = foldl (\<lambda>acc c. 10 * acc + (of_char c - 48)) 0 ds"

definition parse_int :: "string \<Rightarrow> jsnum" where
  "parse_int s =
     (let t = trim s
      in if t = [] then Whole 0
         else if list_all is_digit t then Whole (int (digits_value t))
         else (case t of
                 c # ds \<Rightarrow>
                   if ds \<noteq> [] \<and> list_all is_digit ds \<and> c = CHR ''-'' then Whole (- int (digits_value ds))
                   else if ds \<noteq> [] \<and> list_all is_digit ds \<and> c = CHR ''+'' then Whole (int (digits_value ds))
                   else NaN
               | [] \<Rightarrow> NaN))"

definition integer_runtime :: "jsnum runtime" where
  "integer_runtime =
     \<lparr>num_str = (\<lambda>n. case n of Whole i \<Rightarrow> int_str i | NaN \<Rightarrow> ''NaN''),
      num_truthy = (\<lambda>n. case n of Whole i \<Rightarrow> i \<noteq> 0 | NaN \<Rightarrow> False),
      num_json = (\<lambda>n. case n of Whole i \<Rightarrow> int_str i | NaN \<Rightarrow> ''null''),
      str_num = parse_int,
      nat_num = (\<lambda>k. Whole (int k)),
      num_times = (\<lambda>a b. case a of Whole i \<Rightarrow> (case b of Whole j \<Rightarrow> Whole (i * j) | NaN \<Rightarrow> NaN) | NaN \<Rightarrow> NaN)\<rparr>"

subsection \<open>The exported list of event names\<close>

text \<open>
  \<open>Object.keys(EVENTS_METADATA)\<close>. The keys are the same whatever the type of
  numbers is; the definition reads them off the table at the integer instance.
\<close>

definition EVENT_NAMES :: "string list" where
  "EVENT_NAMES = map fst (EVENTS_METADATA :: (string \<times> jsnum meta) list)"

subsection \<open>Notions used in the statements\<close>

text \<open>
  The definitions of this subsection are not translations of the source. They name what
  the properties below talk about: the commits of a push as the summary lays them out,
  the candidate fields of a subject by name, and a few payloads for examples.
\<close>





text \<open>Example payloads: a closed pull request, and a push of \<open>k\<close> commits.\<close>

definition example_pull_request :: "(string \<times> jsnum json) list \<Rightarrow> jsnum payload" where
  "example_pull_request merged_field =
     [(''action'', JStr ''closed''),
      (''pull_request'',
         JObj ([(''number'', JNum (Whole 7))] @ merged_field
               @ [(''title'', JStr ''T''),
                  (''head'', JObj [(''ref'', JStr ''feat'')]),
                  (''base'', JObj [(''ref'', JStr ''main'')])])),
      (''repository'', JObj [(''full_name'', JStr ''a/b'')])]"

definition example_commits :: "nat \<Rightarrow> jsnum json list" where
  "example_commits k =
     map (\<lambda>j. JObj [(''id'', JStr (''abcdef123456'' @ nat_str j)), (''message'', JStr (''fix '' @ nat_str j))])
       [0..<k]"

definition example_push :: "nat \<Rightarrow> jsnum payload" where
  "example_push k =
     [(''ref'', JStr ''refs/heads/feature/x''),
      (''repository'', JObj [(''full_name'', JStr ''a/b'')]),
      (''pusher'', JObj [(''name'', JStr ''alice'')]),
      (''commits'', JArr (example_commits k))]"

section \<open>Properties\<close>

subsection \<open>Auxiliary facts\<close>



lemma fst_handler_entry: "fst (handler_entry e) = fst e"
  by (cases e) (simp add: handler_entry_def)

lemma keys_at_any_type: "map fst (EVENTS_METADATA :: (string \<times> 'n meta) list) = EVENT_NAMES"
  by (simp add: EVENTS_METADATA_def EVENT_NAMES_def)

lemma dom_HANDLERS_own: "dom (HANDLERS_own :: string \<Rightarrow> 'n handler option) = set EVENT_NAMES"
proof -
  have "dom (HANDLERS_own :: string \<Rightarrow> 'n handler option)
        = fst ` set (map handler_entry (EVENTS_METADATA :: (string \<times> 'n meta) list))"
    unfolding HANDLERS_own_def by (rule dom_map_of_conv_image_fst)
  also have "\<dots> = set (map fst (EVENTS_METADATA :: (string \<times> 'n meta) list))"
    by (simp add: image_image fst_handler_entry)
  finally show ?thesis by (simp only: keys_at_any_type)
qed

lemma sorted_EVENT_NAMES: "sorted EVENT_NAMES"
  by code_simp

lemma distinct_EVENT_NAMES: "distinct EVENT_NAMES"
  by code_simp

lemma HANDLERS_marketplace_purchase:
  "HANDLERS ''marketplace_purchase'' = Handler (\<lambda>N payload event. summarizeMarketplacePurchase N payload)"
  by (simp add: HANDLERS_def HANDLERS_own_def EVENTS_METADATA_def handler_entry_def
      of_payload_def of_payload_event_def)

lemma marketplace_raw_units:
  "summarizeMarketplacePurchase N [(''marketplace_purchase'', JObj [(''units'', JStr ''<b>'')])]
   = Some (''<b>Marketplace purchase</b> <b></b> by <b>?</b>'' @ [LF]
           @ ''plan: <code>plan</code> (<b> '' @ TIMES @ '' '' @ num_str N (nat_num N 0) @ '') = ''
           @ num_str N (num_times N (nat_num N 0) (str_num N ''<b>'')))"
  by (simp add: summarizeMarketplacePurchase_def ensureMapping_def get_prop_def opt_prop_def
      to_number_def join_lines_def tmpl_def esc_def esc_str_def replace_all_def DQ_def)

subsection \<open>No summary is empty\<close>

text \<open>
  Every summarizer opens its first line with a literal of its own, so whatever the
  payload holds, a summary that is produced is not the empty string. The same holds of
  every entry of the dispatch table.
\<close>

lemma join_head_nonempty: "x \<noteq> [] \<Longrightarrow> join sep (x # xs) \<noteq> []"
  by (cases xs) simp_all

lemma tmpl_head: "tmpl (Some (c # cs) # ps) \<noteq> Some []"
  by (auto simp: tmpl_def split: option.splits)

lemma join_lines_head: "l \<noteq> Some [] \<Longrightarrow> join_lines (l # ls) \<noteq> Some []"
  by (auto simp: join_lines_def join_head_nonempty split: option.splits)

lemma those_head: "l \<noteq> Some [] \<Longrightarrow> map_option (join sep) (those (l # ls)) \<noteq> Some []"
  by (auto simp: join_head_nonempty split: option.splits)

lemma formatMainLine_nonempty: "formatMainLine lab a s r u \<noteq> []"
  by (simp add: formatMainLine_def Let_def)

lemma genericActionSummary_nonempty: "genericActionSummary N lab p opts \<noteq> Some []"
  by (auto simp: genericActionSummary_def genericActionSummary_lines_def Let_def
        join_head_nonempty formatMainLine_nonempty split: option.splits)

lemma fallbackSummary_nonempty: "fallbackSummary e p \<noteq> []"
  by (simp add: fallbackSummary_def Let_def)

lemma summarizePush_nonempty: "summarizePush N p \<noteq> Some []"
  unfolding summarizePush_def summarizePush_lines_def Let_def
  by (cases "truthy N (get_prop (ensureMapping (Some (JObj p))) ''deleted'')")
     (auto simp: join_head_nonempty deleted_head_def push_head_def split: option.splits)

lemma summarizePullRequest_nonempty: "summarizePullRequest N p \<noteq> Some []"
  unfolding summarizePullRequest_def summarizePullRequest_lines_def Let_def
  by (simp only: append_Cons append_Nil) (intro those_head tmpl_head)

lemma summarizePing_nonempty: "summarizePing N p \<noteq> Some []"
  unfolding summarizePing_def Let_def
  by (intro join_lines_head tmpl_head | simp only: append_Cons append_Nil | simp)+

lemma summarizeCreate_nonempty: "summarizeCreate N p \<noteq> Some []"
  unfolding summarizeCreate_def Let_def
  by (intro join_lines_head tmpl_head | simp only: append_Cons append_Nil | simp)+

lemma summarizeDelete_nonempty: "summarizeDelete N p \<noteq> Some []"
  unfolding summarizeDelete_def Let_def
  by (intro join_lines_head tmpl_head | simp only: append_Cons append_Nil | simp)+

lemma summarizeIssues_nonempty: "summarizeIssues N p \<noteq> Some []"
  unfolding summarizeIssues_def Let_def
  by (intro join_lines_head tmpl_head | simp only: append_Cons append_Nil | simp)+

lemma summarizeIssueComment_nonempty: "summarizeIssueComment N p \<noteq> Some []"
  unfolding summarizeIssueComment_def Let_def
  by (intro join_lines_head tmpl_head | simp only: append_Cons append_Nil | simp)+

lemma summarizePullRequestReview_nonempty: "summarizePullRequestReview N p \<noteq> Some []"
  unfolding summarizePullRequestReview_def Let_def
  by (simp only: append_Cons append_Nil split: option.split)
     (intro conjI allI impI join_lines_head tmpl_head | simp)+

lemma summarizePullRequestReviewComment_nonempty: "summarizePullRequestReviewComment N p \<noteq> Some []"
  unfolding summarizePullRequestReviewComment_def Let_def
  by (intro join_lines_head tmpl_head | simp only: append_Cons append_Nil | simp)+

lemma summarizePullRequestReviewThread_nonempty: "summarizePullRequestReviewThread N p \<noteq> Some []"
  unfolding summarizePullRequestReviewThread_def Let_def
  by (intro join_lines_head tmpl_head | simp only: append_Cons append_Nil | simp)+

lemma summarizeRelease_nonempty: "summarizeRelease N p \<noteq> Some []"
  unfolding summarizeRelease_def Let_def
  by (intro join_lines_head tmpl_head | simp only: append_Cons append_Nil | simp)+

lemma summarizeStatus_nonempty: "summarizeStatus N p \<noteq> Some []"
  unfolding summarizeStatus_def Let_def
  by (intro join_lines_head tmpl_head | simp only: append_Cons append_Nil | simp)+

lemma summarizeDeployment_nonempty: "summarizeDeployment N p \<noteq> Some []"
  unfolding summarizeDeployment_def Let_def
  by (intro join_lines_head tmpl_head | simp only: append_Cons append_Nil | simp)+

lemma summarizeDeploymentStatus_nonempty: "summarizeDeploymentStatus N p \<noteq> Some []"
  unfolding summarizeDeploymentStatus_def Let_def
  by (intro join_lines_head tmpl_head | simp only: append_Cons append_Nil | simp)+

lemma summarizeDeploymentReview_nonempty: "summarizeDeploymentReview N p \<noteq> Some []"
  unfolding summarizeDeploymentReview_def Let_def
  by (intro join_lines_head tmpl_head | simp only: append_Cons append_Nil | simp)+

lemma summarizeDeploymentProtectionRule_nonempty: "summarizeDeploymentProtectionRule N p \<noteq> Some []"
  unfolding summarizeDeploymentProtectionRule_def Let_def
  by (intro join_lines_head tmpl_head | simp only: append_Cons append_Nil | simp)+

lemma summarizeDiscussion_nonempty: "summarizeDiscussion N p \<noteq> Some []"
  unfolding summarizeDiscussion_def Let_def
  by (intro join_lines_head tmpl_head | simp only: append_Cons append_Nil | simp)+

lemma summarizeDiscussionComment_nonempty: "summarizeDiscussionComment N p \<noteq> Some []"
  unfolding summarizeDiscussionComment_def Let_def
  by (intro join_lines_head tmpl_head | simp only: append_Cons append_Nil | simp)+

lemma summarizeFork_nonempty: "summarizeFork N p \<noteq> Some []"
  unfolding summarizeFork_def Let_def
  by (intro join_lines_head tmpl_head | simp only: append_Cons append_Nil | simp)+

lemma summarizeGollum_nonempty: "summarizeGollum N p \<noteq> Some []"
  unfolding summarizeGollum_def Let_def
  by (intro join_lines_head tmpl_head | simp only: append_Cons append_Nil | simp)+

lemma summarizeInstallation_nonempty: "summarizeInstallation N p \<noteq> Some []"
  unfolding summarizeInstallation_def Let_def
  by (intro join_lines_head tmpl_head | simp only: append_Cons append_Nil | simp)+

lemma summarizeInstallationRepositories_nonempty: "summarizeInstallationRepositories N p \<noteq> Some []"
  unfolding summarizeInstallationRepositories_def Let_def
  by (intro join_lines_head tmpl_head | simp only: append_Cons append_Nil | simp)+

lemma summarizeInstallationTarget_nonempty: "summarizeInstallationTarget N p \<noteq> Some []"
  unfolding summarizeInstallationTarget_def Let_def
  by (intro join_lines_head tmpl_head | simp only: append_Cons append_Nil | simp)+

lemma summarizeMember_nonempty: "summarizeMember N p \<noteq> Some []"
  by (simp add: summarizeMember_def genericActionSummary_nonempty)

lemma summarizeMembership_nonempty: "summarizeMembership N p \<noteq> Some []"
  unfolding summarizeMembership_def Let_def
  by (intro join_lines_head tmpl_head | simp only: append_Cons append_Nil | simp)+

lemma summarizeMeta_nonempty: "summarizeMeta N p \<noteq> Some []"
  unfolding summarizeMeta_def Let_def
  by (intro join_lines_head tmpl_head | simp only: append_Cons append_Nil | simp)+

lemma summarizeMilestone_nonempty: "summarizeMilestone N p \<noteq> Some []"
  by (simp add: summarizeMilestone_def genericActionSummary_nonempty)

lemma summarizeOrgBlock_nonempty: "summarizeOrgBlock N p \<noteq> Some []"
  unfolding summarizeOrgBlock_def Let_def
  by (intro join_lines_head tmpl_head | simp only: append_Cons append_Nil | simp)+

lemma summarizeOrganization_nonempty: "summarizeOrganization N p \<noteq> Some []"
  unfolding summarizeOrganization_def Let_def
  by (intro join_lines_head tmpl_head | simp only: append_Cons append_Nil | simp)+

lemma summarizePageBuild_nonempty: "summarizePageBuild N p \<noteq> Some []"
  unfolding summarizePageBuild_def Let_def
  by (intro join_lines_head tmpl_head | simp only: append_Cons append_Nil | simp)+

lemma summarizePersonalAccessTokenRequest_nonempty: "summarizePersonalAccessTokenRequest N p \<noteq> Some []"
  unfolding summarizePersonalAccessTokenRequest_def Let_def
  by (intro join_lines_head tmpl_head | simp only: append_Cons append_Nil | simp)+

lemma summarizeProject_nonempty: "summarizeProject N p \<noteq> Some []"
  by (simp add: summarizeProject_def genericActionSummary_nonempty)

lemma summarizeProjectCard_nonempty: "summarizeProjectCard N p \<noteq> Some []"
  by (simp add: summarizeProjectCard_def genericActionSummary_nonempty)

lemma summarizeProjectColumn_nonempty: "summarizeProjectColumn N p \<noteq> Some []"
  by (simp add: summarizeProjectColumn_def genericActionSummary_nonempty)

lemma summarizeProjectsV2_nonempty: "summarizeProjectsV2 N p \<noteq> Some []"
  by (simp add: summarizeProjectsV2_def genericActionSummary_nonempty)

lemma summarizeProjectsV2Item_nonempty: "summarizeProjectsV2Item N p \<noteq> Some []"
  by (simp add: summarizeProjectsV2Item_def genericActionSummary_nonempty)

lemma summarizeProjectsV2StatusUpdate_nonempty: "summarizeProjectsV2StatusUpdate N p \<noteq> Some []"
  by (simp add: summarizeProjectsV2StatusUpdate_def genericActionSummary_nonempty)

lemma summarizePublic_nonempty: "summarizePublic N p \<noteq> Some []"
  unfolding summarizePublic_def Let_def
  by (intro join_lines_head tmpl_head | simp only: append_Cons append_Nil | simp)+

lemma summarizeRegistryPackage_nonempty: "summarizeRegistryPackage N p \<noteq> Some []"
  by (simp add: summarizeRegistryPackage_def genericActionSummary_nonempty)

lemma summarizeRepository_nonempty: "summarizeRepository N p \<noteq> Some []"
  by (simp add: summarizeRepository_def genericActionSummary_nonempty)

lemma summarizeRepositoryDispatch_nonempty: "summarizeRepositoryDispatch N p \<noteq> Some []"
  unfolding summarizeRepositoryDispatch_def Let_def
  by (intro join_lines_head tmpl_head | simp only: append_Cons append_Nil | simp)+

lemma summarizeRepositoryImport_nonempty: "summarizeRepositoryImport N p \<noteq> Some []"
  unfolding summarizeRepositoryImport_def Let_def
  by (intro join_lines_head tmpl_head | simp only: append_Cons append_Nil | simp)+

lemma summarizeRepositoryRuleset_nonempty: "summarizeRepositoryRuleset N p \<noteq> Some []"
  by (simp add: summarizeRepositoryRuleset_def genericActionSummary_nonempty)

lemma summarizeRepositoryVulnerabilityAlert_nonempty: "summarizeRepositoryVulnerabilityAlert N p \<noteq> Some []"
  unfolding summarizeRepositoryVulnerabilityAlert_def Let_def
  by (intro join_lines_head tmpl_head | simp only: append_Cons append_Nil | simp)+

lemma summarizeSecretScanningAlert_nonempty: "summarizeSecretScanningAlert N p \<noteq> Some []"
  unfolding summarizeSecretScanningAlert_def Let_def
  by (intro join_lines_head tmpl_head | simp only: append_Cons append_Nil | simp)+

lemma summarizeSecretScanningAlertLocation_nonempty: "summarizeSecretScanningAlertLocation N p \<noteq> Some []"
  unfolding summarizeSecretScanningAlertLocation_def Let_def
  by (intro join_lines_head tmpl_head | simp only: append_Cons append_Nil | simp)+

lemma summarizeSecretScanningScan_nonempty: "summarizeSecretScanningScan N p \<noteq> Some []"
  by (simp add: summarizeSecretScanningScan_def genericActionSummary_nonempty)

lemma summarizeSecurityAdvisory_nonempty: "summarizeSecurityAdvisory N p \<noteq> Some []"
  by (simp add: summarizeSecurityAdvisory_def genericActionSummary_nonempty)

lemma summarizeSecurityAndAnalysis_nonempty: "summarizeSecurityAndAnalysis N p \<noteq> Some []"
  by (simp add: summarizeSecurityAndAnalysis_def genericActionSummary_nonempty)

lemma summarizeSponsorship_nonempty: "summarizeSponsorship N p \<noteq> Some []"
  unfolding summarizeSponsorship_def Let_def
  by (intro join_lines_head tmpl_head | simp only: append_Cons append_Nil | simp)+

lemma summarizeStar_nonempty: "summarizeStar N p \<noteq> Some []"
  unfolding summarizeStar_def Let_def
  by (intro join_lines_head tmpl_head | simp only: append_Cons append_Nil | simp)+

lemma summarizeSubIssues_nonempty: "summarizeSubIssues N p \<noteq> Some []"
  by (simp add: summarizeSubIssues_def genericActionSummary_nonempty)

lemma summarizeTeam_nonempty: "summarizeTeam N p \<noteq> Some []"
  by (simp add: summarizeTeam_def genericActionSummary_nonempty)

lemma summarizeTeamAdd_nonempty: "summarizeTeamAdd N p \<noteq> Some []"
  unfolding summarizeTeamAdd_def Let_def
  by (intro join_lines_head tmpl_head | simp only: append_Cons append_Nil | simp)+

lemma summarizeWatch_nonempty: "summarizeWatch N p e \<noteq> Some []"
  unfolding summarizeWatch_def Let_def
  by (intro join_lines_head tmpl_head | simp only: append_Cons append_Nil | simp)+

lemma summarizeWorkflowDispatch_nonempty: "summarizeWorkflowDispatch N p \<noteq> Some []"
  by (simp add: summarizeWorkflowDispatch_def genericActionSummary_nonempty)

lemma summarizeWorkflowJob_nonempty: "summarizeWorkflowJob N p \<noteq> Some []"
  unfolding summarizeWorkflowJob_def Let_def
  by (intro join_lines_head tmpl_head | simp only: append_Cons append_Nil | simp)+

lemma summarizeWorkflowRun_nonempty: "summarizeWorkflowRun N p \<noteq> Some []"
  unfolding summarizeWorkflowRun_def Let_def
  by (intro join_lines_head tmpl_head | simp only: append_Cons append_Nil | simp)+

lemma summarizeCheckRun_nonempty: "summarizeCheckRun N p \<noteq> Some []"
  unfolding summarizeCheckRun_def Let_def
  by (intro join_lines_head tmpl_head | simp only: append_Cons append_Nil | simp)+

lemma summarizeCheckSuite_nonempty: "summarizeCheckSuite N p \<noteq> Some []"
  unfolding summarizeCheckSuite_def Let_def
  by (intro join_lines_head tmpl_head | simp only: append_Cons append_Nil | simp)+

lemma summarizeCodeScanningAlert_nonempty: "summarizeCodeScanningAlert N p \<noteq> Some []"
  unfolding summarizeCodeScanningAlert_def Let_def
  by (intro join_lines_head tmpl_head | simp only: append_Cons append_Nil | simp)+

lemma summarizeCommitComment_nonempty: "summarizeCommitComment N p \<noteq> Some []"
  unfolding summarizeCommitComment_def Let_def
  by (intro join_lines_head tmpl_head | simp only: append_Cons append_Nil | simp)+

lemma summarizeDependabotAlert_nonempty: "summarizeDependabotAlert N p \<noteq> Some []"
  unfolding summarizeDependabotAlert_def Let_def
  by (intro join_lines_head tmpl_head | simp only: append_Cons append_Nil | simp)+

lemma summarizeLabel_nonempty: "summarizeLabel N p \<noteq> Some []"
  by (simp add: summarizeLabel_def genericActionSummary_nonempty)

lemma summarizePackage_nonempty: "summarizePackage N p \<noteq> Some []"
  by (simp add: summarizePackage_def genericActionSummary_nonempty)

lemma summarizeRepositoryAdvisory_nonempty: "summarizeRepositoryAdvisory N p \<noteq> Some []"
  by (simp add: summarizeRepositoryAdvisory_def genericActionSummary_nonempty)

lemma summarizeCustomProperty_nonempty: "summarizeCustomProperty N p \<noteq> Some []"
  by (simp add: summarizeCustomProperty_def genericActionSummary_nonempty)

lemma summarizeCustomPropertyValues_nonempty: "summarizeCustomPropertyValues N p \<noteq> Some []"
  unfolding summarizeCustomPropertyValues_def Let_def
  by (intro join_lines_head tmpl_head | simp only: append_Cons append_Nil | simp)+

lemma summarizeDeployKey_nonempty: "summarizeDeployKey N p \<noteq> Some []"
  by (simp add: summarizeDeployKey_def genericActionSummary_nonempty)

lemma summarizeGithubAppAuthorization_nonempty: "summarizeGithubAppAuthorization N p \<noteq> Some []"
  unfolding summarizeGithubAppAuthorization_def Let_def
  by (intro join_lines_head tmpl_head | simp only: append_Cons append_Nil | simp)+

lemma summarizeIssueDependencies_nonempty: "summarizeIssueDependencies N p \<noteq> Some []"
  by (simp add: summarizeIssueDependencies_def genericActionSummary_nonempty)

lemma summarizeBranchProtectionConfiguration_nonempty: "summarizeBranchProtectionConfiguration N p \<noteq> Some []"
  by (simp add: summarizeBranchProtectionConfiguration_def genericActionSummary_nonempty)

lemma summarizeBranchProtectionRule_nonempty: "summarizeBranchProtectionRule N p \<noteq> Some []"
  by (simp add: summarizeBranchProtectionRule_def genericActionSummary_nonempty)

lemma summarizeMarketplacePurchase_nonempty: "summarizeMarketplacePurchase N p \<noteq> Some []"
  unfolding summarizeMarketplacePurchase_def Let_def
  by (simp only: append_Cons append_Nil split: option.split)
     (intro conjI allI impI join_lines_head tmpl_head | simp)+

lemma summarizeMergeGroup_nonempty: "summarizeMergeGroup N p \<noteq> Some []"
  unfolding summarizeMergeGroup_def Let_def
  by (intro join_lines_head tmpl_head | simp only: append_Cons append_Nil | simp)+

lemma summarizeMetaEvent_nonempty: "summarizeMetaEvent N p \<noteq> Some []"
  by (simp add: summarizeMetaEvent_def summarizeMeta_nonempty)

lemma summarizeOrg_nonempty: "summarizeOrg N p \<noteq> Some []"
  by (simp add: summarizeOrg_def summarizeOrganization_nonempty)

lemma summarizeSponsorshipEvent_nonempty: "summarizeSponsorshipEvent N p \<noteq> Some []"
  by (simp add: summarizeSponsorshipEvent_def summarizeSponsorship_nonempty)

lemma summarizeWatchDefault_nonempty: "summarizeWatchDefault N p e \<noteq> Some []"
  by (simp add: summarizeWatchDefault_def summarizeWatch_nonempty)

lemma summarizeWorkflow_nonempty: "summarizeWorkflow N p \<noteq> Some []"
  by (simp add: summarizeWorkflow_def summarizeWorkflowRun_nonempty)

lemma handler_entry_of_payload:
  "handler_entry (k, of_payload f) = (k, \<lambda>N payload event. f N payload)"
  by (simp add: handler_entry_def of_payload_def)

lemma handler_entry_of_payload_event:
  "handler_entry (k, of_payload_event f) = (k, f)"
  by (simp add: handler_entry_def of_payload_event_def)

lemma handlers_nonempty:
  "list_all (\<lambda>kh. \<forall>N p e. snd kh N p e \<noteq> Some [])
     (map handler_entry (EVENTS_METADATA :: (string \<times> 'n meta) list))"
  unfolding EVENTS_METADATA_def
  by (simp add: handler_entry_of_payload handler_entry_of_payload_event
       summarizePush_nonempty summarizePullRequest_nonempty summarizePing_nonempty
       summarizeCreate_nonempty summarizeDelete_nonempty summarizeIssues_nonempty
       summarizeIssueComment_nonempty summarizePullRequestReview_nonempty
       summarizePullRequestReviewComment_nonempty summarizePullRequestReviewThread_nonempty
       summarizeRelease_nonempty summarizeStatus_nonempty summarizeDeployment_nonempty
       summarizeDeploymentStatus_nonempty summarizeDeploymentReview_nonempty
       summarizeDeploymentProtectionRule_nonempty summarizeDiscussion_nonempty
       summarizeDiscussionComment_nonempty summarizeFork_nonempty summarizeGollum_nonempty
       summarizeInstallation_nonempty summarizeInstallationRepositories_nonempty
       summarizeInstallationTarget_nonempty summarizeMember_nonempty summarizeMembership_nonempty
       summarizeMeta_nonempty summarizeMilestone_nonempty summarizeOrgBlock_nonempty
       summarizeOrganization_nonempty summarizePageBuild_nonempty
       summarizePersonalAccessTokenRequest_nonempty summarizeProject_nonempty
       summarizeProjectCard_nonempty summarizeProjectColumn_nonempty summarizeProjectsV2_nonempty
       summarizeProjectsV2Item_nonempty summarizeProjectsV2StatusUpdate_nonempty
       summarizePublic_nonempty summarizeRegistryPackage_nonempty summarizeRepository_nonempty
       summarizeRepositoryDispatch_nonempty summarizeRepositoryImport_nonempty
       summarizeRepositoryRuleset_nonempty summarizeRepositoryVulnerabilityAlert_nonempty
       summarizeSecretScanningAlert_nonempty summarizeSecretScanningAlertLocation_nonempty
       summarizeSecretScanningScan_nonempty summarizeSecurityAdvisory_nonempty
       summarizeSecurityAndAnalysis_nonempty summarizeSponsorship_nonempty summarizeStar_nonempty
       summarizeSubIssues_nonempty summarizeTeam_nonempty summarizeTeamAdd_nonempty
       summarizeWatch_nonempty summarizeWorkflowDispatch_nonempty summarizeWorkflowJob_nonempty
       summarizeWorkflowRun_nonempty summarizeCheckRun_nonempty summarizeCheckSuite_nonempty
       summarizeCodeScanningAlert_nonempty summarizeCommitComment_nonempty
       summarizeDependabotAlert_nonempty summarizeLabel_nonempty summarizePackage_nonempty
       summarizeRepositoryAdvisory_nonempty summarizeCustomProperty_nonempty
       summarizeCustomPropertyValues_nonempty summarizeDeployKey_nonempty
       summarizeGithubAppAuthorization_nonempty summarizeIssueDependencies_nonempty
       summarizeBranchProtectionConfiguration_nonempty summarizeBranchProtectionRule_nonempty
       summarizeMarketplacePurchase_nonempty summarizeMergeGroup_nonempty
       summarizeMetaEvent_nonempty summarizeOrg_nonempty summarizeSponsorshipEvent_nonempty
       summarizeWatchDefault_nonempty summarizeWorkflow_nonempty)

lemma HANDLERS_own_nonempty:
  assumes "HANDLERS_own key = Some h"
  shows "h N p e \<noteq> Some []"
proof -
  from assms have "(key, h) \<in> set (map handler_entry EVENTS_METADATA)"
    unfolding HANDLERS_own_def by (rule map_of_SomeD)
  with handlers_nonempty have "\<forall>N p e. snd (key, h) N p e \<noteq> Some []"
    unfolding list_all_iff by blast
  then show ?thesis
    by simp
qed

text \<open>The fallback line in full: the actor segment is always there.\<close>

lemma fallbackSummary_form:
  "fallbackSummary e p =
     ''<b>'' @ esc_str (prettyLabel (if e \<noteq> [] then e else ''event'')) @ ''</b> event''
     @ (if repo p \<noteq> [] then '' for <code>'' @ esc_str (repo p) @ ''</code>'' else [])
     @ '' by <b>'' @ esc_str (if actor p \<noteq> [] then actor p else UNKNOWN) @ ''</b>''"
  by (simp add: fallbackSummary_def Let_def UNKNOWN_def)

subsection \<open>The entry point\<close>

text \<open>
  On every event type whose lower-cased form is not \<open>constructor\<close>, the entry point
  returns a non-empty string: the text of a handler, or the fallback line when there is
  no handler or the handler throws.
\<close>

lemma summarizeGithubEvent_nonempty_string:
  assumes "toLowerCase e \<noteq> ''constructor''"
  shows "\<exists>s. summarizeGithubEvent N e p = JStr s \<and> s \<noteq> []"
proof -
  have key: "(if e \<noteq> [] then e else []) = e"
    by simp
  show ?thesis
  proof (cases "HANDLERS_own (toLowerCase e) :: 'a handler option")
    case None
    with assms show ?thesis
      unfolding summarizeGithubEvent_def HANDLERS_def Let_def key
      by (simp add: fallbackSummary_nonempty)
  next
    case (Some h)
    from HANDLERS_own_nonempty [OF Some]
    have "h N (ensureMapping (Some p)) (toLowerCase e) \<noteq> Some []" .
    with Some show ?thesis
      unfolding summarizeGithubEvent_def HANDLERS_def Let_def key
      by (cases "h N (ensureMapping (Some p)) (toLowerCase e)") (simp_all add: fallbackSummary_nonempty)
  qed
qed

text \<open>
  Claim C1 says that for every event-type string and every payload the entry point
  returns a non-empty string and never throws. The code does not: \<open>HANDLERS\<close> is a
  plain object, so the key \<open>constructor\<close> finds the inherited function \<open>Object\<close>,
  which is truthy and is called as the handler. \<open>Object(mappedPayload, eventKey)\<close>
  returns its first argument, and the entry point returns that object, not a string.
  The theorem evaluates the entry point there, for every payload.
\<close>

theorem summarizeGithubEvent_constructor_returns_object:
  "summarizeGithubEvent N ''constructor'' p = JObj (ensureMapping (Some p))"
  by (simp add: summarizeGithubEvent_def toLowerCase_def lower_char_def HANDLERS_def
      HANDLERS_own_def EVENTS_METADATA_def handler_entry_def)

text \<open>
  Claim C2 says that payload text reaches the output only in escaped form, for every
  event type, counts and prices included. \<open>summarizeMarketplacePurchase\<close> interpolates
  the unit count and the unit price without \<open>esc\<close>: a unit count that is the string
  \<open><b>\<close> appears raw in the second line. The theorem evaluates the entry point on that
  payload, at every runtime.
\<close>

theorem summarizeGithubEvent_marketplace_raw_units:
  "summarizeGithubEvent N ''marketplace_purchase''
     (JObj [(''marketplace_purchase'', JObj [(''units'', JStr ''<b>'')])])
   = JStr (''<b>Marketplace purchase</b> <b></b> by <b>?</b>'' @ [LF]
           @ ''plan: <code>plan</code> (<b> '' @ TIMES @ '' '' @ num_str N (nat_num N 0) @ '') = ''
           @ num_str N (num_times N (nat_num N 0) (str_num N ''<b>'')))"
proof -
  have key: "toLowerCase ''marketplace_purchase'' = ''marketplace_purchase''"
    by (simp add: toLowerCase_def lower_char_def)
  show ?thesis
    by (simp add: summarizeGithubEvent_def key HANDLERS_marketplace_purchase
        marketplace_raw_units ensureMapping_def)
qed

text \<open>
  Claim C3 says that the fallback output is \<open><b>{PrettyLabel}</b> event\<close>, followed by
  the repository segment if a repository resolves and by the actor segment only if an
  actor resolves. \<open>fallbackSummary\<close> replaces an empty actor by \<open>unknown\<close> before it
  tests \<open>if (actorName)\<close>, so the test never fails and the segment
  \<open>by <b>unknown</b>\<close> is appended when no actor resolves. The theorem evaluates the
  fallback on the empty payload.
\<close>

theorem fallbackSummary_unresolved_actor:
  "fallbackSummary ''foo'' [] = ''<b>Foo</b> event by <b>unknown</b>''"
  by code_simp


subsection \<open>The pull request summarizer\<close>

lemma those_Cons_Some:
  "those (x # xs) = Some ls \<Longrightarrow> \<exists>y ys. x = Some y \<and> those xs = Some ys \<and> ls = y # ys"
  by (auto split: option.splits)

lemma ensureMapping_obj: "ensureMapping (Some (JObj kvs)) = kvs"
  by (simp add: ensureMapping_def)

text \<open>
  The headline of a closed pull request, whenever the summary is produced: the action
  shown is \<open>merged\<close> if \<open>pull_request.merged\<close> is truthy and \<open>closed\<close> if not.
\<close>

lemma pull_request_headline:
  assumes action: "get_prop payload ''action'' = Some (JStr ''closed'')"
    and lines: "summarizePullRequest_lines N payload = Some ls"
  shows "\<exists>number rest.
           ls = (''<b>Pull request</b> <code>'' @ esc_str (or_str (repo payload) ''?'') @ ''</code> #'' @ number
                 @ '' <b>''
                 @ (if truthy N (get_prop (ensureMapping (get_prop payload ''pull_request'')) ''merged'')
                    then ''merged'' else ''closed'')
                 @ ''</b> by <b>'' @ esc_str (or_str (actor payload) UNKNOWN) @ ''</b>'') # rest"
proof -
  let ?pr = "ensureMapping (get_prop payload ''pull_request'')"
  let ?number = "nullish (get_prop ?pr ''number'') (nullish (get_prop payload ''number'') (Some (JStr ''?'')))"
  let ?merged = "truthy N (get_prop ?pr ''merged'')"
  let ?action = "if ?merged then Some (JStr ''merged'') else Some (JStr ''closed'')"
  let ?head = "tmpl [Some ''<b>Pull request</b> <code>'', Some (esc_str (or_str (repo payload) ''?'')),
                     Some ''</code> #'', esc N ?number, Some '' <b>'', esc N ?action, Some ''</b> by <b>'',
                     Some (esc_str (or_str (actor payload) UNKNOWN)), Some ''</b>'']"
  from lines action obtain more where "those (?head # more) = Some ls"
    by (simp add: summarizePullRequest_lines_def Let_def ensureMapping_def split: if_splits)
  then have "\<exists>y ys. ?head = Some y \<and> those more = Some ys \<and> ls = y # ys"
    by (rule those_Cons_Some)
  then obtain h rest where h: "?head = Some h" and ls: "ls = h # rest"
    by blast
  from h obtain number where n: "esc N ?number = Some number"
    by (auto simp: tmpl_def split: option.splits)
  have a: "esc N ?action = Some (if ?merged then ''merged'' else ''closed'')"
    by (simp add: esc_def esc_str_def replace_all_def DQ_def)
  from h n a have "h = ''<b>Pull request</b> <code>'' @ esc_str (or_str (repo payload) ''?'') @ ''</code> #'' @ number
                   @ '' <b>'' @ (if ?merged then ''merged'' else ''closed'')
                   @ ''</b> by <b>'' @ esc_str (or_str (actor payload) UNKNOWN) @ ''</b>''"
    by (auto simp: tmpl_def)
  with ls show ?thesis by blast
qed

text \<open>
  Claim C4: for every pull request payload with action \<open>closed\<close> and
  \<open>pull_request.merged\<close> equal to \<open>true\<close>, the headline of the summary renders the
  action as \<open>merged\<close>, not \<open>closed\<close>; with \<open>merged\<close> equal to \<open>false\<close> or absent it
  renders \<open>closed\<close>. The headline is the first line of the summary, \<open>number\<close> the
  escaped pull request number.
\<close>

theorem summarizePullRequest_closed_merged:
  assumes "get_prop payload ''action'' = Some (JStr ''closed'')"
    and "summarizePullRequest_lines N payload = Some ls"
  shows "(get_prop (ensureMapping (get_prop payload ''pull_request'')) ''merged'' = Some (JBool True)
          \<longrightarrow> (\<exists>number rest.
                 ls = (''<b>Pull request</b> <code>'' @ esc_str (or_str (repo payload) ''?'') @ ''</code> #''
                       @ number @ '' <b>merged</b> by <b>'' @ esc_str (or_str (actor payload) UNKNOWN)
                       @ ''</b>'') # rest))
       \<and> (get_prop (ensureMapping (get_prop payload ''pull_request'')) ''merged'' = Some (JBool False)
            \<or> get_prop (ensureMapping (get_prop payload ''pull_request'')) ''merged'' = None
          \<longrightarrow> (\<exists>number rest.
                 ls = (''<b>Pull request</b> <code>'' @ esc_str (or_str (repo payload) ''?'') @ ''</code> #''
                       @ number @ '' <b>closed</b> by <b>'' @ esc_str (or_str (actor payload) UNKNOWN)
                       @ ''</b>'') # rest))"
proof -
  from pull_request_headline [OF assms] obtain number rest where
    ls: "ls = (''<b>Pull request</b> <code>'' @ esc_str (or_str (repo payload) ''?'') @ ''</code> #'' @ number
               @ '' <b>''
               @ (if truthy N (get_prop (ensureMapping (get_prop payload ''pull_request'')) ''merged'')
                  then ''merged'' else ''closed'')
               @ ''</b> by <b>'' @ esc_str (or_str (actor payload) UNKNOWN) @ ''</b>'') # rest"
    by blast
  show ?thesis
  proof (intro conjI impI)
    assume "get_prop (ensureMapping (get_prop payload ''pull_request'')) ''merged'' = Some (JBool True)"
    with ls show "\<exists>number rest.
                 ls = (''<b>Pull request</b> <code>'' @ esc_str (or_str (repo payload) ''?'') @ ''</code> #''
                       @ number @ '' <b>merged</b> by <b>'' @ esc_str (or_str (actor payload) UNKNOWN)
                       @ ''</b>'') # rest"
      by (intro exI [of _ number] exI [of _ rest]) simp
  next
    assume "get_prop (ensureMapping (get_prop payload ''pull_request'')) ''merged'' = Some (JBool False)
            \<or> get_prop (ensureMapping (get_prop payload ''pull_request'')) ''merged'' = None"
    then have "\<not> truthy N (get_prop (ensureMapping (get_prop payload ''pull_request'')) ''merged'')"
      by auto
    with ls show "\<exists>number rest.
                 ls = (''<b>Pull request</b> <code>'' @ esc_str (or_str (repo payload) ''?'') @ ''</code> #''
                       @ number @ '' <b>closed</b> by <b>'' @ esc_str (or_str (actor payload) UNKNOWN)
                       @ ''</b>'') # rest"
      by (intro exI [of _ number] exI [of _ rest]) simp
  qed
qed

text \<open>
  The theorem at two payloads: the merged pull request of the specification's third
  scenario, and the same pull request with \<open>merged\<close> equal to \<open>false\<close>.
\<close>

theorem summarizePullRequest_closed_merged_witness:
  "get_prop (example_pull_request [(''merged'', JBool True)]) ''action'' = Some (JStr ''closed'')
   \<and> summarizePullRequest_lines integer_runtime (example_pull_request [(''merged'', JBool True)])
       = Some [''<b>Pull request</b> <code>a/b</code> #7 <b>merged</b> by <b>unknown</b>'', ''<b>T</b>'',
               ''feat '' @ ARROW @ '' main'']
   \<and> (\<exists>number rest.
         [''<b>Pull request</b> <code>a/b</code> #7 <b>merged</b> by <b>unknown</b>'', ''<b>T</b>'',
          ''feat '' @ ARROW @ '' main'']
         = (''<b>Pull request</b> <code>''
            @ esc_str (or_str (repo (example_pull_request [(''merged'', JBool True)])) ''?'') @ ''</code> #''
            @ number @ '' <b>merged</b> by <b>''
            @ esc_str (or_str (actor (example_pull_request [(''merged'', JBool True)])) UNKNOWN)
            @ ''</b>'') # rest)
   \<and> summarizePullRequest_lines integer_runtime (example_pull_request [(''merged'', JBool False)])
       = Some [''<b>Pull request</b> <code>a/b</code> #7 <b>closed</b> by <b>unknown</b>'', ''<b>T</b>'',
               ''feat '' @ ARROW @ '' main'']
   \<and> (\<exists>number rest.
         [''<b>Pull request</b> <code>a/b</code> #7 <b>closed</b> by <b>unknown</b>'', ''<b>T</b>'',
          ''feat '' @ ARROW @ '' main'']
         = (''<b>Pull request</b> <code>''
            @ esc_str (or_str (repo (example_pull_request [(''merged'', JBool False)])) ''?'') @ ''</code> #''
            @ number @ '' <b>closed</b> by <b>''
            @ esc_str (or_str (actor (example_pull_request [(''merged'', JBool False)])) UNKNOWN)
            @ ''</b>'') # rest)"
proof -
  let ?P1 = "example_pull_request [(''merged'', JBool True)]"
  let ?P2 = "example_pull_request [(''merged'', JBool False)]"
  have a1: "get_prop ?P1 ''action'' = Some (JStr ''closed'')" by code_simp
  have a2: "get_prop ?P2 ''action'' = Some (JStr ''closed'')" by code_simp
  have l1: "summarizePullRequest_lines integer_runtime ?P1
            = Some [''<b>Pull request</b> <code>a/b</code> #7 <b>merged</b> by <b>unknown</b>'', ''<b>T</b>'',
                    ''feat '' @ ARROW @ '' main'']"
    by code_simp
  have l2: "summarizePullRequest_lines integer_runtime ?P2
            = Some [''<b>Pull request</b> <code>a/b</code> #7 <b>closed</b> by <b>unknown</b>'', ''<b>T</b>'',
                    ''feat '' @ ARROW @ '' main'']"
    by code_simp
  have m1: "get_prop (ensureMapping (get_prop ?P1 ''pull_request'')) ''merged'' = Some (JBool True)"
    by code_simp
  have m2: "get_prop (ensureMapping (get_prop ?P2 ''pull_request'')) ''merged'' = Some (JBool False)"
    by code_simp
  show ?thesis
    using summarizePullRequest_closed_merged [OF a1 l1] summarizePullRequest_closed_merged [OF a2 l2]
      a1 l1 l2 m1 m2
    by blast
qed

subsection \<open>The push summarizer\<close>

lemma split_on_nonempty: "split_on c s \<noteq> []"
  by (induction s) (auto split: list.splits)

lemma split_on_no_sep: "c \<notin> set s \<Longrightarrow> split_on c s = [s]"
  by (induction s) auto

lemma split_on_two: "c \<in> set s \<Longrightarrow> \<exists>p q qs. split_on c s = p # q # qs"
proof (induction s)
  case Nil
  then show ?case by simp
next
  case (Cons x s)
  show ?case
  proof (cases "x = c")
    case True
    then show ?thesis
      using split_on_nonempty [of c s] by (cases "split_on c s") auto
  next
    case False
    with Cons obtain p q qs where "split_on c s = p # q # qs" by auto
    with False show ?thesis by simp
  qed
qed

lemma last_split_on_append:
  "c \<notin> set name \<Longrightarrow> last (split_on c (pre @ c # name)) = name"
proof (induction pre)
  case Nil
  then show ?case by (simp add: split_on_no_sep)
next
  case (Cons x pre)
  obtain p q qs where s: "split_on c (pre @ c # name) = p # q # qs"
    using split_on_two [of c "pre @ c # name"] by auto
  with Cons show ?case by auto
qed

lemma push_branch_after_slash:
  assumes "CHR ''/'' \<notin> set name"
  shows "push_branch (Some (JStr (pre @ CHR ''/'' # name))) = name"
proof -
  obtain p ps where s: "split_on (CHR ''/'') (pre @ CHR ''/'' # name) = p # ps"
    using split_on_nonempty [of "CHR ''/''" "pre @ CHR ''/'' # name"]
    by (cases "split_on (CHR ''/'') (pre @ CHR ''/'' # name)") auto
  have "last (p # ps) = name"
    using last_split_on_append [OF assms, of pre] s by simp
  with s show ?thesis by (simp add: push_branch_def)
qed

lemma push_branch_no_slash:
  "CHR ''/'' \<notin> set r \<Longrightarrow> r \<noteq> [] \<Longrightarrow> push_branch (Some (JStr r)) = r"
  by (simp add: push_branch_def split_on_no_sep)

lemma push_branch_unknown:
  "(\<And>s. ref = Some (JStr s) \<Longrightarrow> s = []) \<Longrightarrow> push_branch ref = ''unknown''"
  by (auto simp: push_branch_def UNKNOWN_def split: option.splits json.splits)

lemma nullish_default_string:
  "nullish (v :: 'a json option) (Some (JStr [])) = Some (JStr s) \<Longrightarrow> v = Some (JStr s) \<or> s = []"
  by (cases "(v, Some (JStr []) :: 'a json option)" rule: nullish.cases) auto

lemma no_slash_not_tag: "CHR ''/'' \<notin> set r \<Longrightarrow> \<not> startsWith r ''refs/tags/''"
proof
  assume a: "CHR ''/'' \<notin> set r" and b: "startsWith r ''refs/tags/''"
  from b have t: "take (length ''refs/tags/'') r = ''refs/tags/''"
    unfolding startsWith_def .
  have "CHR ''/'' \<in> set ''refs/tags/''" by simp
  then have "CHR ''/'' \<in> set (take (length ''refs/tags/'') r)"
    unfolding t .
  then have "CHR ''/'' \<in> set r" by (rule in_set_takeD)
  with a show False by simp
qed





text \<open>The headline of a push summary opens with the kind of ref and its name in a code tag.\<close>

lemma push_headline_form:
  assumes "summarizePush_lines N payload = Some ls"
  shows "\<exists>tail. hd ls =
           (if truthy N (get_prop payload ''deleted'') then ''<b>Deleted</b> '' else ''<b>Push</b> to '')
           @ (if (case nullish (get_prop payload ''ref'') (Some (JStr [])) of
                    Some (JStr r) \<Rightarrow> startsWith r ''refs/tags/'' | _ \<Rightarrow> False) then ''tag'' else ''branch'')
           @ '' <code>'' @ esc_str (push_branch (nullish (get_prop payload ''ref'') (Some (JStr [])))) @ ''</code>''
           @ tail"
proof -
  let ?T = "if (case nullish (get_prop payload ''ref'') (Some (JStr [])) of
                  Some (JStr r) \<Rightarrow> startsWith r ''refs/tags/'' | _ \<Rightarrow> False) then ''tag'' else ''branch''"
  let ?B = "push_branch (nullish (get_prop payload ''ref'') (Some (JStr [])))"
  let ?R = "or_str (repo payload) ''?''"
  obtain a where
    hd: "hd ls = (if truthy N (get_prop payload ''deleted'')
                  then deleted_head ?T ?B ?R a
                  else push_head ?T ?B ?R a (length (array_or_empty (get_prop payload ''commits'')))
                         (truthy N (get_prop payload ''forced'')))"
  proof (cases "esc N (or_else N (nullish (dig (Some (JObj payload)) [''pusher'', ''name''])
                                     (Some (JStr (actor payload)))) (Some (JStr UNKNOWN)))")
    case None
    with assms show ?thesis
      unfolding summarizePush_lines_def Let_def ensureMapping_obj by simp
  next
    case (Some actorText)
    with assms have "hd ls = (if truthy N (get_prop payload ''deleted'')
                  then deleted_head ?T ?B ?R actorText
                  else push_head ?T ?B ?R actorText (length (array_or_empty (get_prop payload ''commits'')))
                         (truthy N (get_prop payload ''forced'')))"
      unfolding summarizePush_lines_def Let_def ensureMapping_obj
      by (cases "truthy N (get_prop payload ''deleted'')") auto
    then show ?thesis by (rule that)
  qed
  show ?thesis
  proof (cases "truthy N (get_prop payload ''deleted'')")
    case True
    with hd have "hd ls = ''<b>Deleted</b> '' @ ?T @ '' <code>'' @ esc_str ?B @ ''</code>''
                          @ ('' from <code>'' @ esc_str ?R @ ''</code> by <b>'' @ a @ ''</b>'')"
      by (simp add: deleted_head_def)
    with True show ?thesis
      by (intro exI [of _ "'' from <code>'' @ esc_str ?R @ ''</code> by <b>'' @ a @ ''</b>''"]) simp
  next
    case False
    let ?n = "length (array_or_empty (get_prop payload ''commits''))"
    from False hd have "hd ls = ''<b>Push</b> to '' @ ?T @ '' <code>'' @ esc_str ?B @ ''</code>''
                          @ ('' in <code>'' @ esc_str ?R @ ''</code> by <b>'' @ a @ ''</b>''
                             @ '' ('' @ nat_str ?n @ '' '' @ (if ?n = 1 then ''commit'' else ''commits'') @ '')''
                             @ (if truthy N (get_prop payload ''forced'') then '' <i>(forced)</i>'' else []))"
      by (simp add: push_head_def)
    with False show ?thesis
      by (intro exI [of _ "'' in <code>'' @ esc_str ?R @ ''</code> by <b>'' @ a @ ''</b>''
                             @ '' ('' @ nat_str ?n @ '' '' @ (if ?n = 1 then ''commit'' else ''commits'') @ '')''
                             @ (if truthy N (get_prop payload ''forced'') then '' <i>(forced)</i>'' else [])"])
         simp
  qed
qed

text \<open>
  Claim C10, as amended. The claim says that for every push payload whose \<open>ref\<close> is a
  string the name rendered in the headline is the substring after the final \<open>/\<close> of
  \<open>ref\<close>, and that a \<open>ref\<close> that is absent or not a string renders as \<open>unknown\<close>. The
  code tests \<open>ref\<close> for truthiness, so the empty string renders as \<open>unknown\<close> as well.
  Amended: for every push payload whose \<open>ref\<close> is a non-empty string, the name rendered
  in the headline (escaped, in the first code tag) is the substring after the final
  \<open>/\<close> of \<open>ref\<close>, the whole of \<open>ref\<close> if it has no \<open>/\<close>; and for every push payload
  whose \<open>ref\<close> is absent, not a string or the empty string, the rendered name is
  \<open>unknown\<close>.
\<close>

theorem summarizePush_ref_name:
  assumes "summarizePush_lines N payload = Some ls"
  shows "(get_prop payload ''ref'' = Some (JStr (pre @ [CHR ''/''] @ name)) \<and> CHR ''/'' \<notin> set name
          \<longrightarrow> (\<exists>tail. hd ls =
                 (if truthy N (get_prop payload ''deleted'') then ''<b>Deleted</b> '' else ''<b>Push</b> to '')
                 @ (if startsWith (pre @ [CHR ''/''] @ name) ''refs/tags/'' then ''tag'' else ''branch'')
                 @ '' <code>'' @ esc_str name @ ''</code>'' @ tail))
       \<and> (get_prop payload ''ref'' = Some (JStr r) \<and> r \<noteq> [] \<and> CHR ''/'' \<notin> set r
          \<longrightarrow> (\<exists>tail. hd ls =
                 (if truthy N (get_prop payload ''deleted'') then ''<b>Deleted</b> '' else ''<b>Push</b> to '')
                 @ ''branch'' @ '' <code>'' @ esc_str r @ ''</code>'' @ tail))
       \<and> ((\<forall>s. get_prop payload ''ref'' = Some (JStr s) \<longrightarrow> s = [])
          \<longrightarrow> (\<exists>tail. hd ls =
                 (if truthy N (get_prop payload ''deleted'') then ''<b>Deleted</b> '' else ''<b>Push</b> to '')
                 @ ''branch'' @ '' <code>'' @ esc_str ''unknown'' @ ''</code>'' @ tail))"
proof (intro conjI impI)
  assume a: "get_prop payload ''ref'' = Some (JStr (pre @ [CHR ''/''] @ name)) \<and> CHR ''/'' \<notin> set name"
  then have "push_branch (nullish (get_prop payload ''ref'') (Some (JStr []))) = name"
    by (simp add: push_branch_after_slash)
  with a push_headline_form [OF assms]
  show "\<exists>tail. hd ls =
          (if truthy N (get_prop payload ''deleted'') then ''<b>Deleted</b> '' else ''<b>Push</b> to '')
          @ (if startsWith (pre @ [CHR ''/''] @ name) ''refs/tags/'' then ''tag'' else ''branch'')
          @ '' <code>'' @ esc_str name @ ''</code>'' @ tail"
    by simp
next
  assume a: "get_prop payload ''ref'' = Some (JStr r) \<and> r \<noteq> [] \<and> CHR ''/'' \<notin> set r"
  then have "push_branch (nullish (get_prop payload ''ref'') (Some (JStr []))) = r"
    by (simp add: push_branch_no_slash)
  moreover from a have "\<not> startsWith r ''refs/tags/''"
    by (simp add: no_slash_not_tag)
  ultimately show "\<exists>tail. hd ls =
          (if truthy N (get_prop payload ''deleted'') then ''<b>Deleted</b> '' else ''<b>Push</b> to '')
          @ ''branch'' @ '' <code>'' @ esc_str r @ ''</code>'' @ tail"
    using a push_headline_form [OF assms] by simp
next
  assume a: "\<forall>s. get_prop payload ''ref'' = Some (JStr s) \<longrightarrow> s = []"
  have b: "\<And>s. nullish (get_prop payload ''ref'') (Some (JStr [])) = Some (JStr s) \<Longrightarrow> s = []"
  proof -
    fix s
    assume "nullish (get_prop payload ''ref'') (Some (JStr [])) = Some (JStr s)"
    with a show "s = []"
      by (auto dest: nullish_default_string)
  qed
  then have "push_branch (nullish (get_prop payload ''ref'') (Some (JStr []))) = ''unknown''"
    by (rule push_branch_unknown)
  moreover have "\<not> (case nullish (get_prop payload ''ref'') (Some (JStr [])) of
                      Some (JStr r) \<Rightarrow> startsWith r ''refs/tags/'' | _ \<Rightarrow> False)"
    using b by (auto simp: startsWith_def split: option.splits json.splits)
  ultimately show "\<exists>tail. hd ls =
          (if truthy N (get_prop payload ''deleted'') then ''<b>Deleted</b> '' else ''<b>Push</b> to '')
          @ ''branch'' @ '' <code>'' @ esc_str ''unknown'' @ ''</code>'' @ tail"
    using push_headline_form [OF assms] by simp
qed

text \<open>
  The theorem at two payloads: a push to \<open>refs/heads/feature/x\<close>, which renders the
  name \<open>x\<close>, and a push without a \<open>ref\<close>, which renders \<open>unknown\<close>.
\<close>

theorem summarizePush_ref_name_witness:
  "summarizePush_lines integer_runtime (example_push 1)
     = Some [''<b>Push</b> to branch <code>x</code> in <code>a/b</code> by <b>alice</b> (1 commit)'',
             [], ''<code>abcdef1</code> fix 0'']
   \<and> get_prop (example_push 1) ''ref'' = Some (JStr (''refs/heads/feature'' @ [CHR ''/''] @ ''x''))
   \<and> CHR ''/'' \<notin> set ''x''
   \<and> (\<exists>tail. hd [''<b>Push</b> to branch <code>x</code> in <code>a/b</code> by <b>alice</b> (1 commit)'',
                   [], ''<code>abcdef1</code> fix 0'']
              = ''<b>Push</b> to '' @ ''branch'' @ '' <code>'' @ esc_str ''x'' @ ''</code>'' @ tail)
   \<and> summarizePush_lines integer_runtime []
     = Some [''<b>Push</b> to branch <code>unknown</code> in <code>?</code> by <b>unknown</b> (0 commits)'']
   \<and> (\<exists>tail. hd [''<b>Push</b> to branch <code>unknown</code> in <code>?</code> by <b>unknown</b> (0 commits)'']
              = ''<b>Push</b> to '' @ ''branch'' @ '' <code>'' @ esc_str ''unknown'' @ ''</code>'' @ tail)"
proof -
  let ?L1 = "[''<b>Push</b> to branch <code>x</code> in <code>a/b</code> by <b>alice</b> (1 commit)'',
              [], ''<code>abcdef1</code> fix 0'']"
  let ?L0 = "[''<b>Push</b> to branch <code>unknown</code> in <code>?</code> by <b>unknown</b> (0 commits)'']"
  have l1: "summarizePush_lines integer_runtime (example_push 1) = Some ?L1" by code_simp
  have r1: "get_prop (example_push 1) ''ref'' = Some (JStr (''refs/heads/feature'' @ [CHR ''/''] @ ''x''))"
    by code_simp
  have s1: "CHR ''/'' \<notin> set ''x''" by simp
  have d1: "\<not> truthy integer_runtime (get_prop (example_push 1) ''deleted'')" by code_simp
  have t1: "\<not> startsWith (''refs/heads/feature'' @ [CHR ''/''] @ ''x'') ''refs/tags/''" by code_simp
  have l0: "summarizePush_lines integer_runtime ([] :: jsnum payload) = Some ?L0" by code_simp
  have r0: "\<forall>s. get_prop ([] :: jsnum payload) ''ref'' = Some (JStr s) \<longrightarrow> s = []"
    by (simp add: get_prop_def)
  have d0: "\<not> truthy integer_runtime (get_prop ([] :: jsnum payload) ''deleted'')" by code_simp
  have c1: "\<exists>tail. hd ?L1 = ''<b>Push</b> to '' @ ''branch'' @ '' <code>'' @ esc_str ''x'' @ ''</code>'' @ tail"
    using summarizePush_ref_name [OF l1, of "''refs/heads/feature''" "''x''"] r1 s1 d1 t1
    by (simp only: if_False simp_thms)
  have c0: "\<exists>tail. hd ?L0 = ''<b>Push</b> to '' @ ''branch'' @ '' <code>'' @ esc_str ''unknown'' @ ''</code>'' @ tail"
    using summarizePush_ref_name [OF l0] r0 d0
    by (simp only: if_False simp_thms)
  from l1 r1 s1 c1 l0 c0 show ?thesis by (intro conjI)
qed

text \<open>
  The claim as stated fails for the empty string: it is a string, the substring after
  its final \<open>/\<close> is empty (it is what \<open>split\<close> and \<open>pop\<close> return), and the
  headline renders \<open>unknown\<close>.
\<close>

theorem summarizePush_empty_ref_counterexample:
  "summarizePush_lines integer_runtime [(''ref'', JStr [])]
     = Some [''<b>Push</b> to branch <code>unknown</code> in <code>?</code> by <b>unknown</b> (0 commits)'']
   \<and> last (split_on (CHR ''/'') []) = []"
  by code_simp



subsection \<open>Subjects\<close>







subsection \<open>The generic action summary\<close>

lemma generic_subject_extra:
  "generic_subject N payload (options\<lparr>extra := e\<rparr>) = generic_subject N payload options"
  by (simp add: generic_subject_def split: option.splits)

lemma callableExtra_none: "callableExtra N NoExtra payload = Some []"
  by (simp add: callableExtra_def)

lemma callableExtra_thrown:
  "f payload = Inl (Thrown message inspected) \<Longrightarrow>
   callableExtra N (ExtraResolver f) payload
   = map_option (\<lambda>m. [''<i>extra error: '' @ m @ ''</i>''])
       (esc N (or_else N message (Some (JStr inspected))))"
  by (simp add: callableExtra_def)

text \<open>
  Claim C9, as amended. The claim says that for every payload and every function-valued
  \<open>extra\<close> whose invocation throws, \<open>genericActionSummary\<close> does not propagate the
  exception: the output still has its headline, and the error is rendered as one line
  \<open><i>extra error: ...</i>\<close> with the message escaped. The catch block reads
  \<open>error.message\<close>, which throws in turn when the thrown value is \<open>null\<close> or
  \<open>undefined\<close>, and it converts the message to a string, which can throw as well.
  Amended: for every payload on which the summary without \<open>extra\<close> is produced, and
  every function-valued \<open>extra\<close> whose invocation throws a value other than \<open>null\<close> and
  \<open>undefined\<close> whose message (or, when the message is falsy, whose rendering by
  \<open>inspect\<close>) converts to a string, as that of every \<open>Error\<close> does,
  \<open>genericActionSummary\<close> does not propagate the exception: its lines are the lines of
  the summary without \<open>extra\<close>, the headline first, followed by the single line
  \<open><i>extra error: ...</i>\<close> with the message escaped.
\<close>

theorem genericActionSummary_extra_throws:
  assumes thr: "f payload = Inl (Thrown message inspected)"
    and msg: "esc N (or_else N message (Some (JStr inspected))) = Some text"
    and base: "genericActionSummary_lines N lab payload (options\<lparr>extra := NoExtra\<rparr>) = Some ls0"
  shows "genericActionSummary_lines N lab payload (options\<lparr>extra := ExtraResolver f\<rparr>)
           = Some (ls0 @ [''<i>extra error: '' @ text @ ''</i>''])
         \<and> genericActionSummary N lab payload (options\<lparr>extra := ExtraResolver f\<rparr>)
           = Some (join [LF] (ls0 @ [''<i>extra error: '' @ text @ ''</i>'']))
         \<and> (\<exists>action s more.
               to_str N (case nullish (get_prop payload ''action'') (Some (JStr [])) of
                           None \<Rightarrow> JStr [] | Some a \<Rightarrow> a) = Some action
               \<and> generic_subject N payload options = Some s
               \<and> ls0 = formatMainLine lab (trim action) (subject_name s) (repo payload)
                          (if actor payload \<noteq> [] then actor payload else UNKNOWN) # more)"
proof -
  let ?A = "to_str N (case nullish (get_prop payload ''action'') (Some (JStr [])) of
                        None \<Rightarrow> JStr [] | Some a \<Rightarrow> a)"
  from base obtain action where a: "?A = Some action"
    unfolding genericActionSummary_lines_def Let_def ensureMapping_obj
    by (cases ?A) simp_all
  from base a obtain s where s: "generic_subject N payload options = Some s"
    unfolding genericActionSummary_lines_def Let_def ensureMapping_obj generic_subject_extra
    by (cases "generic_subject N payload options") simp_all
  let ?main = "[formatMainLine lab (trim action) (subject_name s) (repo payload)
                  (if actor payload \<noteq> [] then actor payload else UNKNOWN)]
               @ (if subject_url s \<noteq> [] then [link_str (subject_url s) ''View details''] else [])"
  from base a s have ls0: "ls0 = ?main"
    unfolding genericActionSummary_lines_def Let_def ensureMapping_obj generic_subject_extra
    by (simp add: callableExtra_none)
  have e: "callableExtra N (ExtraResolver f) payload = Some [''<i>extra error: '' @ text @ ''</i>'']"
    using callableExtra_thrown [of f payload message inspected N] thr msg by simp
  have l: "genericActionSummary_lines N lab payload (options\<lparr>extra := ExtraResolver f\<rparr>)
        = Some (?main @ [''<i>extra error: '' @ text @ ''</i>''])"
    unfolding genericActionSummary_lines_def Let_def ensureMapping_obj generic_subject_extra
    by (simp add: a s e)
  then have j: "genericActionSummary N lab payload (options\<lparr>extra := ExtraResolver f\<rparr>)
        = Some (join [LF] (?main @ [''<i>extra error: '' @ text @ ''</i>'']))"
    by (simp only: genericActionSummary_def option.map)
  from l j ls0 a s show ?thesis by simp
qed

text \<open>
  The theorem at a label event whose \<open>extra\<close> function throws an \<open>Error\<close> with the
  message \<open>boom <\<close>.
\<close>

theorem genericActionSummary_extra_throws_witness:
  "genericActionSummary_lines integer_runtime ''Label''
       [(''action'', JStr ''created''), (''label'', JObj [(''name'', JStr ''bug'')])]
       (no_options\<lparr>subject := OneField ''label'', extra := NoExtra\<rparr>)
     = Some [''<b>Label</b>: bug <b>created</b>'']
   \<and> esc integer_runtime (or_else integer_runtime (Some (JStr ''boom <'')) (Some (JStr ''Error: boom <'')))
     = Some ''boom &lt;''
   \<and> genericActionSummary integer_runtime ''Label''
       [(''action'', JStr ''created''), (''label'', JObj [(''name'', JStr ''bug'')])]
       (no_options\<lparr>subject := OneField ''label'',
                    extra := ExtraResolver (\<lambda>p. Inl (Thrown (Some (JStr ''boom <'')) ''Error: boom <''))\<rparr>)
     = Some (join [LF] ([''<b>Label</b>: bug <b>created</b>''] @ [''<i>extra error: '' @ ''boom &lt;'' @ ''</i>'']))"
proof -
  let ?p = "[(''action'', JStr ''created''), (''label'', JObj [(''name'', JStr ''bug'')])] :: jsnum payload"
  let ?f = "\<lambda>p :: jsnum payload. Inl (Thrown (Some (JStr ''boom <'')) ''Error: boom <'') :: jsnum thrown + extra_value"
  let ?o = "no_options\<lparr>subject := OneField ''label''\<rparr> :: jsnum options"
  have thr: "?f ?p = Inl (Thrown (Some (JStr ''boom <'')) ''Error: boom <'')" by simp
  have msg: "esc integer_runtime (or_else integer_runtime (Some (JStr ''boom <'')) (Some (JStr ''Error: boom <'')))
             = Some ''boom &lt;''"
    by code_simp
  have base: "genericActionSummary_lines integer_runtime ''Label'' ?p (?o\<lparr>extra := NoExtra\<rparr>)
              = Some [''<b>Label</b>: bug <b>created</b>'']"
    by code_simp
  from genericActionSummary_extra_throws [of ?f ?p, OF thr msg base] msg base
  show ?thesis by simp
qed

text \<open>
  The claim as stated fails for an \<open>extra\<close> function that throws \<open>null\<close>: the summary
  without \<open>extra\<close> is produced, and with it a TypeError leaves \<open>genericActionSummary\<close>.
\<close>

theorem genericActionSummary_extra_throws_null_counterexample:
  "genericActionSummary integer_runtime ''Label'' [] no_options = Some ''<b>Label</b>''
   \<and> genericActionSummary integer_runtime ''Label'' []
       (no_options\<lparr>extra := ExtraResolver (\<lambda>p. Inl ThrownNullish)\<rparr>) = None"
  by code_simp

subsection \<open>The list of event names\<close>

text \<open>
  Claim C8: the exported list \<open>EVENT_NAMES\<close> is exactly the set of keys of the dispatch
  table, and it is sorted in ascending order (strictly: no name occurs twice).
\<close>

theorem EVENT_NAMES_keys_sorted:
  "set EVENT_NAMES = dom (HANDLERS_own :: string \<Rightarrow> 'n handler option)
   \<and> sorted EVENT_NAMES \<and> distinct EVENT_NAMES"
  by (simp add: dom_HANDLERS_own sorted_EVENT_NAMES distinct_EVENT_NAMES)

end
